theory Spec2Isabelle
  imports Complex_Main "HOL-Library.AList"
begin

section \<open>JavaScript values\<close>

text \<open>
  The requirement data handled by the recommender front end is untyped JSON
  (\<^verbatim>\<open>any\<close> in the TypeScript sources).  A value is one of the JavaScript values
  that JSON decoding can produce, plus \<^verbatim>\<open>undefined\<close>, the result of reading a
  property that is not there.  An object is the list of its own enumerable properties in
  insertion order; strings are lists of code units below 256.
\<close>

datatype jsval =
    JUndefined
  | JNull
  | JBool bool
  | JNum real
  | JStr string
  | JArr "jsval list"
  | JObj "(string \<times> jsval) list"

type_synonym obj = "(string \<times> jsval) list"

text \<open>\<^verbatim>\<open>!!v\<close>: the values that count as true in a condition.\<close>

fun truthy :: "jsval \<Rightarrow> bool" where
  "truthy JUndefined = False"
| "truthy JNull = False"
| "truthy (JBool b) = b"
| "truthy (JNum r) = (r \<noteq> 0)"
| "truthy (JStr s) = (s \<noteq> [])"
| "truthy (JArr xs) = True"
| "truthy (JObj kvs) = True"

text \<open>
  Decimal rendering of a natural number, as used for the index keys of arrays and strings
  and for counts in messages; \<open>digit_char\<close> is applied to digits below 10 only.
\<close>

definition digit_char :: "nat \<Rightarrow> char" where
  "digit_char d = ''0123456789'' ! d"

function showNat :: "nat \<Rightarrow> string" where
  "showNat n = (if n < 10 then [digit_char n] else showNat (n div 10) @ [digit_char (n mod 10)])"
  by pat_completeness auto
termination
  by (relation "measure id") auto

text \<open>
  \<^verbatim>\<open>Object.entries(v)\<close> for a value that is neither \<^verbatim>\<open>null\<close> nor
  \<^verbatim>\<open>undefined\<close>: the properties of an object, the indexed elements of an array, the
  indexed characters of a string, nothing for a number or a boolean.  Every use below is
  behind the truthiness test that the source makes first.
\<close>

fun Object_entries :: "jsval \<Rightarrow> (string \<times> jsval) list" where
  "Object_entries (JObj kvs) = kvs"
| "Object_entries (JArr xs) = zip (map showNat [0..<length xs]) xs"
| "Object_entries (JStr s) = zip (map showNat [0..<length s]) (map (\<lambda>c. JStr [c]) s)"
| "Object_entries v = []"

definition Object_keys :: "jsval \<Rightarrow> string list" where
  "Object_keys v = map fst (Object_entries v)"

text \<open>\<^verbatim>\<open>v[key]\<close> for the keys read below; a missing property reads as \<^verbatim>\<open>undefined\<close>.\<close>

definition get_prop :: "jsval \<Rightarrow> string \<Rightarrow> jsval" where
  "get_prop v key = (case map_of (Object_entries v) key of None \<Rightarrow> JUndefined | Some x \<Rightarrow> x)"

text \<open>
  \<^verbatim>\<open>key in o\<close> on a plain data object, read on the object's own properties: the
  keys are those of the data, and what \<^verbatim>\<open>Object.prototype\<close> would add is left out.
\<close>

definition has_key :: "string \<Rightarrow> obj \<Rightarrow> bool" where
  "has_key key ob = (key \<in> fst ` set ob)"

text \<open>\<^verbatim>\<open>o[key] = v\<close>: overwrite in place, or append a new property.\<close>

definition set_prop :: "string \<Rightarrow> jsval \<Rightarrow> obj \<Rightarrow> obj" where
  "set_prop key v ob = AList.update key v ob"

text \<open>\<^verbatim>\<open>{ ...a, ...b }\<close>.\<close>

definition spread2 :: "obj \<Rightarrow> obj \<Rightarrow> obj" where
  "spread2 a b = fold (\<lambda>kv acc. set_prop (fst kv) (snd kv) acc) b a"

section \<open>Schema merger (AIRecommender)\<close>

text \<open>The inner \<^verbatim>\<open>process\<close> of \<^verbatim>\<open>flattenRequirements\<close>, with the accumulator \<^verbatim>\<open>flat\<close> passed explicitly.\<close>

definition process :: "jsval \<Rightarrow> obj \<Rightarrow> obj" where
  "process reqs flat =
     (if \<not> truthy reqs then flat
      else fold (\<lambda>key flat.
                  let value = get_prop reqs key
                  in if value \<noteq> JNull \<and> value \<noteq> JStr [] then set_prop key value flat else flat)
                (Object_keys reqs) flat)"

definition group_names :: "string list" where
  "group_names = [''mandatoryRequirements'', ''optionalRequirements'']"

definition flattenRequirements :: "jsval \<Rightarrow> obj" where
  "flattenRequirements provided =
     (let flat = []
      in if truthy provided then
           let flat = process (get_prop provided ''mandatoryRequirements'') flat;
               flat = process (get_prop provided ''optionalRequirements'') flat
           in fold (\<lambda>key flat.
                     if key \<notin> set group_names \<and> \<not> has_key key flat then
                       (if get_prop provided key \<noteq> JNull \<and> get_prop provided key \<noteq> JStr []
                        then set_prop key (get_prop provided key) flat else flat)
                     else flat)
                   (Object_keys provided) flat
         else flat)"

text \<open>The \<^verbatim>\<open>allKeys\<close> array of \<^verbatim>\<open>mergeRequirementsWithSchema\<close>.\<close>

definition allKeys :: "obj \<Rightarrow> string list" where
  "allKeys schema =
     (if truthy (get_prop (JObj schema) ''mandatoryRequirements'')
      then Object_keys (get_prop (JObj schema) ''mandatoryRequirements'') else []) @
     (if truthy (get_prop (JObj schema) ''optionalRequirements'')
      then Object_keys (get_prop (JObj schema) ''optionalRequirements'') else [])"

definition mergeRequirementsWithSchema :: "obj \<Rightarrow> obj \<Rightarrow> obj" where
  "mergeRequirementsWithSchema provided schema =
     (let merged = provided
      in fold (\<lambda>key merged. if \<not> has_key key merged then set_prop key (JStr []) merged else merged)
              (allKeys schema) merged)"




section \<open>Results ranking view (RightPanel)\<close>

text \<open>
  The analysis result at the types that \<^verbatim>\<open>types.ts\<close> declares.  The optional
  chaining and the \<^verbatim>\<open>?? []\<close> defaults of the view do nothing on a value of
  these types; a missing result is \<^verbatim>\<open>null\<close>, here \<open>None\<close>.
\<close>

record ProductMatch =
  pm_productName :: string
  pm_vendor :: string
  pm_matchScore :: real
  pm_requirementsMatch :: bool
  pm_reasoning :: string
  pm_limitations :: string
  pm_imageUrl :: "string option"

record VendorAnalysis =
  vendorMatches :: "ProductMatch list"

record RankedProduct =
  rp_productType :: string
  rp_rank :: int
  rp_productName :: string
  rp_vendor :: string
  rp_overallScore :: real
  rp_keyStrengths :: string
  rp_concerns :: string
  rp_requirementsMatch :: bool
  rp_imageUrl :: "string option"

record OverallRanking =
  markdownAnalysis :: jsval
  rankedProducts :: "RankedProduct list"

record AnalysisResult =
  ar_productType :: string
  vendorAnalysis :: VendorAnalysis
  overallRanking :: OverallRanking

text \<open>The template \<^verbatim>\<open>`${vendor}-${productName}`\<close> that keys the match map.\<close>

definition productKey :: "string \<Rightarrow> string \<Rightarrow> string" where
  "productKey vendor productName = vendor @ ''-'' @ productName"

text \<open>
  \<^verbatim>\<open>requirementsMatchMap\<close>: one \<^verbatim>\<open>map.set\<close> per vendor match, in order, so a
  later entry with the same key replaces an earlier one.
\<close>

definition requirementsMatchMap :: "AnalysisResult \<Rightarrow> (string \<rightharpoonup> bool)" where
  "requirementsMatchMap analysisResult =
     fold (\<lambda>match m. m(productKey (pm_vendor match) (pm_productName match) \<mapsto> pm_requirementsMatch match))
          (vendorMatches (vendorAnalysis analysisResult)) Map.empty"

text \<open>\<^verbatim>\<open>requirementsMatchMap.get(key) ?? product.requirementsMatch\<close>.\<close>

definition matchFlag :: "AnalysisResult \<Rightarrow> RankedProduct \<Rightarrow> bool" where
  "matchFlag analysisResult product =
     (case requirementsMatchMap analysisResult (productKey (rp_vendor product) (rp_productName product)) of
        Some b \<Rightarrow> b
      | None \<Rightarrow> rp_requirementsMatch product)"

text \<open>The object literal of \<^verbatim>\<open>filteredAnalysisResult\<close> for a result that is not \<^verbatim>\<open>null\<close>.\<close>

definition filtered :: "AnalysisResult \<Rightarrow> AnalysisResult" where
  "filtered analysisResult =
     analysisResult
       \<lparr> vendorAnalysis := (vendorAnalysis analysisResult)
            \<lparr> vendorMatches :=
                filter (\<lambda>match. pm_requirementsMatch match = True)
                       (vendorMatches (vendorAnalysis analysisResult)) \<rparr>,
         overallRanking := (overallRanking analysisResult)
            \<lparr> rankedProducts :=
                map (\<lambda>(index, product).
                       product \<lparr> rp_rank := int index + 1,
                                 rp_requirementsMatch := matchFlag analysisResult product \<rparr>)
                    (enumerate 0
                       (filter (\<lambda>product. matchFlag analysisResult product = True)
                               (rankedProducts (overallRanking analysisResult)))) \<rparr> \<rparr>"

definition filteredAnalysisResult :: "AnalysisResult option \<Rightarrow> AnalysisResult option" where
  "filteredAnalysisResult analysisResult =
     (case analysisResult of None \<Rightarrow> None | Some a \<Rightarrow> Some (filtered a))"



text \<open>The last vendor match with a given key: the entry whose flag the map holds for it.\<close>

definition lastVendorMatch :: "AnalysisResult \<Rightarrow> string \<Rightarrow> ProductMatch option" where
  "lastVendorMatch analysisResult key =
     find (\<lambda>match. productKey (pm_vendor match) (pm_productName match) = key)
          (rev (vendorMatches (vendorAnalysis analysisResult)))"



text \<open>Builders for concrete analysis results; the fields that the view does not read are fixed.\<close>

definition mkMatch :: "string \<Rightarrow> string \<Rightarrow> bool \<Rightarrow> ProductMatch" where
  "mkMatch v n b =
     \<lparr> pm_productName = n, pm_vendor = v, pm_matchScore = 0, pm_requirementsMatch = b,
       pm_reasoning = [], pm_limitations = [], pm_imageUrl = None \<rparr>"

definition mkRanked :: "string \<Rightarrow> string \<Rightarrow> int \<Rightarrow> real \<Rightarrow> bool \<Rightarrow> RankedProduct" where
  "mkRanked v n r s b =
     \<lparr> rp_productType = [], rp_rank = r, rp_productName = n, rp_vendor = v, rp_overallScore = s,
       rp_keyStrengths = [], rp_concerns = [], rp_requirementsMatch = b, rp_imageUrl = None \<rparr>"

definition mkAnalysis :: "ProductMatch list \<Rightarrow> RankedProduct list \<Rightarrow> AnalysisResult" where
  "mkAnalysis ms ps =
     \<lparr> ar_productType = [], vendorAnalysis = \<lparr> vendorMatches = ms \<rparr>,
       overallRanking = \<lparr> markdownAnalysis = JNull, rankedProducts = ps \<rparr> \<rparr>"

section \<open>Text\<close>

text \<open>
  Strings are read as sequences of code units below 256 (Latin-1).  On these,
  \<^verbatim>\<open>trim\<close> and the class \<^verbatim>\<open>\s\<close> remove tab, line feed, vertical tab, form
  feed, carriage return, space and no-break space, and \<^verbatim>\<open>toLowerCase\<close> maps
  \<^verbatim>\<open>A-Z\<close> and the accented capitals \<open>0xC0..0xDE\<close> (but not the multiplication sign
  \<open>0xD7\<close>) to the letter 32 places further on.
\<close>

definition isWhiteSpace :: "char \<Rightarrow> bool" where
  "isWhiteSpace c = (of_char c \<in> {9, 10, 11, 12, 13, 32, 160 :: nat})"

definition trim :: "string \<Rightarrow> string" where
  "trim s = rev (dropWhile isWhiteSpace (rev (dropWhile isWhiteSpace s)))"

definition isUpperCase :: "char \<Rightarrow> bool" where
  "isUpperCase c =
     (let n = (of_char c :: nat)
      in (65 \<le> n \<and> n \<le> 90) \<or> (192 \<le> n \<and> n \<le> 222 \<and> n \<noteq> 215))"

definition lowerChar :: "char \<Rightarrow> char" where
  "lowerChar c = (if isUpperCase c then char_of ((of_char c :: nat) + 32) else c)"

definition toLowerCase :: "string \<Rightarrow> string" where
  "toLowerCase s = map lowerChar s"

text \<open>\<^verbatim>\<open>s.includes(sub)\<close>.\<close>

fun includes_str :: "string \<Rightarrow> string \<Rightarrow> bool" where
  "includes_str [] sub = (sub = [])"
| "includes_str (c # cs) sub = (take (length sub) (c # cs) = sub \<or> includes_str cs sub)"

text \<open>\<^verbatim>\<open>parts.join(sep)\<close> on strings.\<close>

fun joinWith :: "string \<Rightarrow> string list \<Rightarrow> string" where
  "joinWith sep [] = []"
| "joinWith sep [p] = p"
| "joinWith sep (p # q # ps) = p @ sep @ joinWith sep (q # ps)"

text \<open>
  \<^verbatim>\<open>normalizeUserInput\<close> of \<^verbatim>\<open>api.ts\<close>: the class \<^verbatim>\<open>[\\_-]\<close> holds the
  backslash (code \<open>0x5C\<close>), the underscore and the hyphen.
\<close>

definition normalizeUserInput :: "string \<Rightarrow> string" where
  "normalizeUserInput input =
     toLowerCase (filter (\<lambda>c. c \<noteq> CHR 0x5C \<and> c \<noteq> CHR ''_'' \<and> c \<noteq> CHR ''-'') input)"

section \<open>Chat input (ChatInterface)\<close>

text \<open>The props of \<^verbatim>\<open>ChatInterface\<close> that its input controls read.\<close>

record ChatInterfaceProps =
  ci_isLoading :: bool
  ci_isStreaming :: bool
  ci_inputValue :: string
  ci_currentStep :: string

text \<open>What a handler of the chat input does, in order.\<close>

datatype ui_effect =
    ToastDestructive string string
  | OnSendMessage string
  | SetInputValue string
  | SetActiveDescription "string option"
  | PreventDefault

definition handleSend :: "ChatInterfaceProps \<Rightarrow> ui_effect list" where
  "handleSend p =
     (let trimmedInput = trim (ci_inputValue p)
      in if trimmedInput = [] then
           [ToastDestructive ''Input required'' ''Please enter your data before sending.'']
         else if ci_isLoading p then []
         else [OnSendMessage trimmedInput, SetInputValue [], SetActiveDescription None])"

definition handleKeyDown :: "ChatInterfaceProps \<Rightarrow> string \<Rightarrow> bool \<Rightarrow> ui_effect list" where
  "handleKeyDown p key shiftKey =
     (if key = ''Enter'' \<and> \<not> shiftKey then PreventDefault # handleSend p else [])"

text \<open>The \<^verbatim>\<open>disabled\<close> attributes of the Send button and of the text area.\<close>

definition sendButtonDisabled :: "ChatInterfaceProps \<Rightarrow> bool" where
  "sendButtonDisabled p =
     (trim (ci_inputValue p) = [] \<or> ci_isLoading p \<or> ci_currentStep p = ''finalAnalysis'')"

definition textareaDisabled :: "ChatInterfaceProps \<Rightarrow> bool" where
  "textareaDisabled p = (ci_currentStep p = ''finalAnalysis'')"

text \<open>
  The two ways of submitting through the chat input: a click on the Send button, which
  runs \<^verbatim>\<open>handleSend\<close> unless the button is disabled, and a key pressed in the text
  area, which runs \<^verbatim>\<open>handleKeyDown\<close> unless the text area is disabled.
\<close>

datatype ui_event = ClickSend | KeyDown string bool

definition chatInputEvent :: "ChatInterfaceProps \<Rightarrow> ui_event \<Rightarrow> ui_effect list" where
  "chatInputEvent p ev =
     (case ev of
        ClickSend \<Rightarrow> if sendButtonDisabled p then [] else handleSend p
      | KeyDown key shiftKey \<Rightarrow> if textareaDisabled p then [] else handleKeyDown p key shiftKey)"

text \<open>The messages that an event hands to \<^verbatim>\<open>onSendMessage\<close>.\<close>

definition sentMessages :: "ui_effect list \<Rightarrow> string list" where
  "sentMessages effs = concat (map (\<lambda>e. case e of OnSendMessage m \<Rightarrow> [m] | _ \<Rightarrow> []) effs)"

section \<open>Session state, effects and the backend\<close>

text \<open>The data exchanged with the backend, at the types of \<^verbatim>\<open>types.ts\<close>.\<close>

datatype MessageType = user | assistant | feedback

text \<open>
  A chat message.  Its id stands for the \<^verbatim>\<open>Date.now()\<close>-and-random string of
  \<^verbatim>\<open>addMessage\<close>: ids are drawn from a counter.  The timestamp, the role (always
  \<^verbatim>\<open>undefined\<close>) and the metadata (never set by the workflow) are left out.
\<close>

record ChatMessage =
  m_id :: nat
  m_type :: MessageType
  m_content :: string

record ValidationAlert =
  message :: string

record ValidationResult =
  validationAlert :: "ValidationAlert option"
  isComplete :: bool
  detectedSchema :: jsval
  providedRequirements :: jsval
  vr_productType :: string

record IntentClassificationResult =
  intent :: string
  ic_nextStep :: "string option"
  resumeWorkflow :: "bool option"

record AgentResponse =
  content :: string
  nextStep :: "string option"
  maintainWorkflow :: "bool option"

record AdditionalRequirements =
  explanation :: string
  ad_providedRequirements :: jsval

record StructuredResponse =
  structuredRequirements :: string

record AdvancedParametersResult =
  apr_productType :: string
  uniqueParameters :: "string list"
  totalVendorsSearched :: nat
  totalUniqueParameters :: nat

record AdvancedParametersSelection =
  selectedParameters :: obj
  sel_explanation :: string
  friendlyResponse :: string
  totalSelected :: int

text \<open>The object literals that the workflow passes as \<^verbatim>\<open>dataContext\<close>.\<close>

datatype dataContext =
    CtxEmpty
  | CtxAnalysis AnalysisResult
  | CtxCollected obj
  | CtxProductData string obj
  | CtxRequirements string obj
  | CtxProduct string
  | CtxUpdated string obj
  | CtxAvailable string "string list"
  | CtxSelection string obj int "string list"

text \<open>The requests of \<^verbatim>\<open>api.ts\<close> that the workflow makes, with their payloads.\<close>

datatype request =
    PostIntent string
  | PostSalesAgent string dataContext string "string option"
  | PostValidate string bool "string option"
  | PostAnalyze string
  | GetSchema string
  | PostAdditionalRequirements string string
  | PostStructureRequirements string
  | PostAdvancedParameters string
  | PostAddAdvancedParameters string string "string list"

text \<open>
  What can be thrown: the rejection of an axios call, which carries the
  \<^verbatim>\<open>error.response.data.error\<close> text when the server sent one, an \<^verbatim>\<open>Error\<close> made by
  the API layer, and a \<^verbatim>\<open>TypeError\<close>.
\<close>

datatype exn = AxiosError "string option" | Error string | TypeError

record Toast =
  title :: string
  description :: string

text \<open>
  Everything the component and the API module hold: the \<^verbatim>\<open>AppState\<close> object, the
  other \<^verbatim>\<open>useState\<close> cells of \<^verbatim>\<open>AIRecommender\<close>, the toasts shown, the module
  variable \<^verbatim>\<open>hasValidatedOnce\<close>, the requests sent so far, and the id counter.
\<close>

record world =
  messages :: "ChatMessage list"
  currentProductType :: "string option"
  validationResult :: "ValidationResult option"
  analysisResult :: "AnalysisResult option"
  requirementSchema :: "obj option"
  isLoading :: bool
  inputValue :: string
  productType :: string
  collectedData :: obj
  advancedParameters :: "AdvancedParametersResult option"
  selectedAdvancedParams :: obj
  currentStep :: string
  isStreaming :: bool
  toasts :: "Toast list"
  hasValidatedOnce :: bool
  sent :: "request list"
  nextId :: nat

text \<open>
  The environment: the backend, one oracle per endpoint, which answers the request made as
  the \<open>n\<close>-th of the session with a failure (and the server's error text, if any) or with
  the response body at its declared type, after \<^verbatim>\<open>convertKeysToCamelCase\<close> where the
  API applies it; and the rendering of numbers as text.
\<close>

record env =
  Number_toString :: "real \<Rightarrow> string"
  ep_intent :: "nat \<Rightarrow> request \<Rightarrow> string option + IntentClassificationResult"
  ep_sales_agent :: "nat \<Rightarrow> request \<Rightarrow> string option + AgentResponse"
  ep_validate :: "nat \<Rightarrow> request \<Rightarrow> string option + ValidationResult"
  ep_analyze :: "nat \<Rightarrow> request \<Rightarrow> string option + AnalysisResult"
  ep_schema :: "nat \<Rightarrow> request \<Rightarrow> string option + obj"
  ep_additional_requirements :: "nat \<Rightarrow> request \<Rightarrow> string option + AdditionalRequirements"
  ep_structure_requirements :: "nat \<Rightarrow> request \<Rightarrow> string option + StructuredResponse"
  ep_advanced_parameters :: "nat \<Rightarrow> request \<Rightarrow> string option + AdvancedParametersResult"
  ep_add_advanced_parameters :: "nat \<Rightarrow> request \<Rightarrow> string option + AdvancedParametersSelection"

subsection \<open>Asynchronous code as state passing with exceptions\<close>

text \<open>
  An \<^verbatim>\<open>async\<close> function takes the world and returns the world it leaves, with its
  result or with what it threw (a rejected promise).
\<close>

type_synonym 'a io = "world \<Rightarrow> (exn + 'a) \<times> world"

definition ret :: "'a \<Rightarrow> 'a io" where
  "ret x = (\<lambda>w. (Inr x, w))"

definition throw :: "exn \<Rightarrow> 'a io" where
  "throw e = (\<lambda>w. (Inl e, w))"

definition bnd :: "'a io \<Rightarrow> ('a \<Rightarrow> 'b io) \<Rightarrow> 'b io" where
  "bnd m k = (\<lambda>w. case m w of (Inl e, w') \<Rightarrow> (Inl e, w') | (Inr x, w') \<Rightarrow> k x w')"

definition thn :: "'a io \<Rightarrow> 'b io \<Rightarrow> 'b io" where
  "thn m k = bnd m (\<lambda>x. k)"

definition try_catch :: "'a io \<Rightarrow> (exn \<Rightarrow> 'a io) \<Rightarrow> 'a io" where
  "try_catch m h = (\<lambda>w. case m w of (Inl e, w') \<Rightarrow> h e w' | (Inr x, w') \<Rightarrow> (Inr x, w'))"

definition gets :: "(world \<Rightarrow> 'a) \<Rightarrow> 'a io" where
  "gets f = (\<lambda>w. (Inr (f w), w))"

definition setState :: "(world \<Rightarrow> world) \<Rightarrow> unit io" where
  "setState f = (\<lambda>w. (Inr (), f w))"

definition setCurrentStep :: "string \<Rightarrow> unit io" where
  "setCurrentStep s = setState (\<lambda>prev. prev \<lparr> currentStep := s \<rparr>)"

definition setCollectedData :: "obj \<Rightarrow> unit io" where
  "setCollectedData d = setState (\<lambda>prev. prev \<lparr> collectedData := d \<rparr>)"

definition setIsStreaming :: "bool \<Rightarrow> unit io" where
  "setIsStreaming b = setState (\<lambda>prev. prev \<lparr> isStreaming := b \<rparr>)"

definition setAdvancedParameters :: "AdvancedParametersResult \<Rightarrow> unit io" where
  "setAdvancedParameters r = setState (\<lambda>prev. prev \<lparr> advancedParameters := Some r \<rparr>)"

definition setSelectedAdvancedParams :: "obj \<Rightarrow> unit io" where
  "setSelectedAdvancedParams d = setState (\<lambda>prev. prev \<lparr> selectedAdvancedParams := d \<rparr>)"

definition toast :: "string \<Rightarrow> string \<Rightarrow> unit io" where
  "toast t d = setState (\<lambda>prev. prev \<lparr> toasts := toasts prev @ [\<lparr> title = t, description = d \<rparr>] \<rparr>)"

text \<open>An axios call: the request is recorded and the endpoint's oracle answers it.\<close>

definition axios :: "(nat \<Rightarrow> request \<Rightarrow> string option + 'r) \<Rightarrow> request \<Rightarrow> 'r io" where
  "axios ep req =
     (\<lambda>w. case ep (length (sent w)) req of
            Inl failure \<Rightarrow> (Inl (AxiosError failure), w \<lparr> sent := sent w @ [req] \<rparr>)
          | Inr data \<Rightarrow> (Inr data, w \<lparr> sent := sent w @ [req] \<rparr>))"

subsection \<open>The API layer (api.ts)\<close>

text \<open>\<^verbatim>\<open>error.response?.data?.error || fallback\<close>.\<close>

definition errorOr :: "exn \<Rightarrow> string \<Rightarrow> string" where
  "errorOr error fallback =
     (case error of
        AxiosError (Some e) \<Rightarrow> if e \<noteq> [] then e else fallback
      | _ \<Rightarrow> fallback)"

definition classifyIntent :: "env \<Rightarrow> string \<Rightarrow> IntentClassificationResult io" where
  "classifyIntent E userInput =
     try_catch
       (axios (ep_intent E) (PostIntent userInput))
       (\<lambda>error. ret \<lparr> intent = ''other'', ic_nextStep = None, resumeWorkflow = Some False \<rparr>)"

definition generateAgentResponse ::
    "env \<Rightarrow> string \<Rightarrow> dataContext \<Rightarrow> string \<Rightarrow> string option \<Rightarrow> AgentResponse io" where
  "generateAgentResponse E step ctx userMessage intent' =
     try_catch
       (bnd (axios (ep_sales_agent E) (PostSalesAgent step ctx userMessage intent'))
          (\<lambda>data. ret \<lparr> content = content data, nextStep = nextStep data,
                         maintainWorkflow = maintainWorkflow data \<rparr>))
       (\<lambda>error. ret \<lparr> content = ''I'm having trouble connecting to my brain right now. Please try again in a moment.'',
                       nextStep = None, maintainWorkflow = None \<rparr>)"

definition validateRequirements :: "env \<Rightarrow> string \<Rightarrow> string option \<Rightarrow> ValidationResult io" where
  "validateRequirements E userInput productType' =
     try_catch
       (let normalizedInput = normalizeUserInput userInput
        in bnd (gets hasValidatedOnce) (\<lambda>is_repeat.
           bnd (axios (ep_validate E)
                  (PostValidate normalizedInput is_repeat
                     (case productType' of Some p \<Rightarrow> if p \<noteq> [] then Some p else None | None \<Rightarrow> None)))
             (\<lambda>data. thn (setState (\<lambda>w. w \<lparr> hasValidatedOnce := True \<rparr>)) (ret data))))
       (\<lambda>error. throw (Error (errorOr error ''Validation failed'')))"

definition analyzeProducts :: "env \<Rightarrow> string \<Rightarrow> AnalysisResult io" where
  "analyzeProducts E userInput =
     try_catch
       (let normalizedInput = normalizeUserInput userInput
        in axios (ep_analyze E) (PostAnalyze normalizedInput))
       (\<lambda>error. throw (Error (errorOr error ''Analysis failed'')))"

definition defaultSchema :: obj where
  "defaultSchema =
     [(''default'', JObj [(''mandatory'', JObj []), (''optional'', JObj [])]),
      (''mandatoryRequirements'', JObj []),
      (''optionalRequirements'', JObj [])]"

definition getRequirementSchema :: "env \<Rightarrow> string \<Rightarrow> obj io" where
  "getRequirementSchema E productType' =
     try_catch
       (if productType' = [] \<or> trim productType' = [] then ret defaultSchema
        else axios (ep_schema E) (GetSchema productType'))
       (\<lambda>error. throw (Error (errorOr error ''Schema fetch failed'')))"

definition additionalRequirements :: "env \<Rightarrow> string \<Rightarrow> string \<Rightarrow> AdditionalRequirements io" where
  "additionalRequirements E productType' userInput =
     try_catch
       (axios (ep_additional_requirements E) (PostAdditionalRequirements productType' userInput))
       (\<lambda>error. throw (Error (errorOr error ''Failed to process additional requirements.'')))"

definition structureRequirements :: "env \<Rightarrow> string \<Rightarrow> StructuredResponse io" where
  "structureRequirements E fullInput =
     try_catch
       (let normalizedInput = normalizeUserInput fullInput
        in axios (ep_structure_requirements E) (PostStructureRequirements normalizedInput))
       (\<lambda>error. throw (Error (errorOr error ''Requirement structuring failed'')))"

definition discoverAdvancedParameters :: "env \<Rightarrow> string \<Rightarrow> AdvancedParametersResult io" where
  "discoverAdvancedParameters E productType' =
     try_catch
       (axios (ep_advanced_parameters E) (PostAdvancedParameters productType'))
       (\<lambda>error. throw (Error (errorOr error ''Failed to discover advanced parameters'')))"

definition addAdvancedParameters ::
    "env \<Rightarrow> string \<Rightarrow> string \<Rightarrow> string list \<Rightarrow> AdvancedParametersSelection io" where
  "addAdvancedParameters E productType' userInput availableParameters =
     try_catch
       (axios (ep_add_advanced_parameters E)
          (PostAddAdvancedParameters productType' userInput availableParameters))
       (\<lambda>error. throw (Error (errorOr error ''Failed to process advanced parameters'')))"

section \<open>Workflow state machine (AIRecommender)\<close>

text \<open>
  The handlers are \<^verbatim>\<open>useCallback\<close> closures: what they read of the state is the
  value captured at the render that made them, while what they write goes to the live
  state.  The captured values are a parameter of each handler.
\<close>

record captured =
  c_currentStep :: string
  c_collectedData :: obj
  c_productType :: string
  c_validationResult :: "ValidationResult option"
  c_requirementSchema :: "obj option"
  c_advancedParameters :: "AdvancedParametersResult option"
  c_selectedAdvancedParams :: obj

text \<open>The values a handler made at the latest render has captured.\<close>

definition render :: "world \<Rightarrow> captured" where
  "render w =
     \<lparr> c_currentStep = currentStep w, c_collectedData = collectedData w,
       c_productType = productType w, c_validationResult = validationResult w,
       c_requirementSchema = requirementSchema w, c_advancedParameters = advancedParameters w,
       c_selectedAdvancedParams = selectedAdvancedParams w \<rparr>"

subsection \<open>Helper functions\<close>

definition addMessage :: "MessageType \<Rightarrow> string \<Rightarrow> ChatMessage io" where
  "addMessage ty text =
     (\<lambda>w. let newMessage = \<lparr> m_id = nextId w, m_type = ty, m_content = text \<rparr>
           in (Inr newMessage, w \<lparr> messages := messages w @ [newMessage], nextId := Suc (nextId w) \<rparr>))"

definition updateMessage :: "nat \<Rightarrow> string \<Rightarrow> unit io" where
  "updateMessage i newContent =
     setState (\<lambda>prev. prev \<lparr> messages :=
        map (\<lambda>msg. if m_id msg = i then msg \<lparr> m_content := newContent \<rparr> else msg) (messages prev) \<rparr>)"

text \<open>The loop of \<^verbatim>\<open>streamAssistantMessage\<close>: one more character at each step.\<close>

fun streamLoop :: "nat \<Rightarrow> string \<Rightarrow> string \<Rightarrow> unit io" where
  "streamLoop i current [] = ret ()"
| "streamLoop i current (c # rest) =
     thn (updateMessage i (current @ [c])) (streamLoop i (current @ [c]) rest)"

definition streamAssistantMessage :: "string \<Rightarrow> nat io" where
  "streamAssistantMessage fullText =
     thn (setIsStreaming True)
    (bnd (addMessage assistant [])
       (\<lambda>msg. thn (streamLoop (m_id msg) [] fullText)
              (thn (setIsStreaming False)
              (ret (m_id msg)))))"

text \<open>\<^verbatim>\<open>String(v)\<close> and \<^verbatim>\<open>v.join(sep)\<close>.\<close>

fun ToString :: "(real \<Rightarrow> string) \<Rightarrow> jsval \<Rightarrow> string" where
  "ToString f JUndefined = ''undefined''"
| "ToString f JNull = ''null''"
| "ToString f (JBool b) = (if b then ''true'' else ''false'')"
| "ToString f (JNum r) = f r"
| "ToString f (JStr s) = s"
| "ToString f (JArr xs) =
     joinWith '','' (map (\<lambda>x. if x = JNull \<or> x = JUndefined then [] else ToString f x) xs)"
| "ToString f (JObj kvs) = ''[object Object]''"

definition arrayJoin :: "(real \<Rightarrow> string) \<Rightarrow> string \<Rightarrow> jsval list \<Rightarrow> string" where
  "arrayJoin f sep xs =
     joinWith sep (map (\<lambda>x. if x = JNull \<or> x = JUndefined then [] else ToString f x) xs)"

definition composeUserDataString :: "env \<Rightarrow> obj \<Rightarrow> string" where
  "composeUserDataString E data =
     (let f = Number_toString E;
          parts = (if truthy (get_prop (JObj data) ''productType'')
                   then [''Product Type: '' @ ToString f (get_prop (JObj data) ''productType'')]
                   else []);
          parts = parts @ concat (map (\<lambda>key.
                    if key = ''productType'' then []
                    else let value = get_prop (JObj data) key
                         in if value \<noteq> JNull \<and> value \<noteq> JUndefined \<and> value \<noteq> JStr [] then
                              [case value of
                                 JObj kvs \<Rightarrow>
                                   joinWith ''. '' (map (\<lambda>(k, v). case v of
                                        JArr xs \<Rightarrow> k @ '': '' @ arrayJoin f '', '' xs
                                      | _ \<Rightarrow> k @ '': '' @ ToString f v) (Object_entries value))
                               | JArr xs \<Rightarrow>
                                   joinWith ''. '' (map (\<lambda>(k, v). case v of
                                        JArr xs \<Rightarrow> k @ '': '' @ arrayJoin f '', '' xs
                                      | _ \<Rightarrow> k @ '': '' @ ToString f v) (Object_entries value))
                               | _ \<Rightarrow> key @ '': '' @ ToString f value]
                            else [])
                    (Object_keys (JObj data)))
      in joinWith ''. '' parts)"

text \<open>\<^verbatim>\<open>(({ productType, ...rest }) => rest)(collectedData)\<close>.\<close>

definition requirementsOnly :: "obj \<Rightarrow> obj" where
  "requirementsOnly data = filter (\<lambda>kv. fst kv \<noteq> ''productType'') data"

text \<open>\<^verbatim>\<open>trimmedInput.toLowerCase().replace(/\s/g, "")\<close>.\<close>

definition normalizedInputOf :: "string \<Rightarrow> string" where
  "normalizedInputOf trimmedInput = filter (\<lambda>c. \<not> isWhiteSpace c) (toLowerCase trimmedInput)"

text \<open>A case-insensitive test \<^verbatim>\<open>/^(a|b|...)$/i\<close> against words in lower case.\<close>

definition matchesWord :: "string list \<Rightarrow> string \<Rightarrow> bool" where
  "matchesWord ws s = (toLowerCase s \<in> set ws)"

text \<open>
  \<^verbatim>\<open>mergeRequirementsWithSchema(data, state.requirementSchema!)\<close>: reading a group of a
  schema that is \<^verbatim>\<open>null\<close> throws.
\<close>

definition mergeWithCapturedSchema :: "obj \<Rightarrow> obj option \<Rightarrow> obj io" where
  "mergeWithCapturedSchema data schema =
     (case schema of
        None \<Rightarrow> throw TypeError
      | Some s \<Rightarrow> ret (mergeRequirementsWithSchema data s))"

subsection \<open>Analysis and summary\<close>

definition performAnalysis :: "env \<Rightarrow> captured \<Rightarrow> unit io" where
  "performAnalysis E cap =
     thn (setState (\<lambda>prev. prev \<lparr> isLoading := True \<rparr>))
    (try_catch
       (let fullInputStr = ''Product Type: '' @ c_productType cap @ ''. ''
                             @ composeUserDataString E (c_collectedData cap)
        in bnd (analyzeProducts E fullInputStr) (\<lambda>analysis.
           let threshold = 80;
               highScoringProducts =
                 filter (\<lambda>p. rp_overallScore p \<ge> threshold \<and> rp_requirementsMatch p = True)
                        (rankedProducts (overallRanking analysis));
               count = length highScoringProducts
           in bnd (generateAgentResponse E ''finalAnalysis'' (CtxAnalysis analysis)
                     (''Analysis complete. Found '' @ showNat count @ '' matching products.'') None)
                (\<lambda>llmResponse.
                   thn (streamAssistantMessage (content llmResponse))
                  (thn (setState (\<lambda>prev. prev \<lparr> analysisResult := Some analysis, isLoading := False \<rparr>))
                  (thn (setCurrentStep ''initialInput'')
                  (toast ''Analysis Complete''
                         (''Found '' @ showNat count @ '' matching products.'')))))))
       (\<lambda>error.
          bnd (generateAgentResponse E ''analysisError'' CtxEmpty
                 ''An error occurred during final analysis.'' None)
            (\<lambda>llmResponse.
               thn (streamAssistantMessage (content llmResponse))
              (thn (setState (\<lambda>prev. prev \<lparr> isLoading := False \<rparr>))
              (setCurrentStep ''analysisError'')))))"

definition summaryMessage :: "string \<Rightarrow> string" where
  "summaryMessage summaryContent = [CHR 0x0A, CHR 0x0A] @ summaryContent @ [CHR 0x0A, CHR 0x0A]"

definition handleShowSummaryAndProceed :: "env \<Rightarrow> captured \<Rightarrow> unit io" where
  "handleShowSummaryAndProceed E cap =
     thn (setState (\<lambda>prev. prev \<lparr> isLoading := True \<rparr>))
    (try_catch
       (let requirementsString = composeUserDataString E (requirementsOnly (c_collectedData cap))
        in bnd (structureRequirements E requirementsString) (\<lambda>structuredResponse.
           let summaryContent = structuredRequirements structuredResponse
           in bnd (generateAgentResponse E ''showSummary'' (CtxCollected (c_collectedData cap))
                     ''Summary of requirements is ready.'' None)
                (\<lambda>summaryIntro.
                   thn (streamAssistantMessage (content summaryIntro))
                  (thn (addMessage assistant (summaryMessage summaryContent))
                  (thn (setState (\<lambda>prev. prev \<lparr> isLoading := False \<rparr>))
                  (performAnalysis E cap))))))
       (\<lambda>error.
          bnd (generateAgentResponse E ''showSummary'' CtxEmpty ''Error generating summary.'' None)
            (\<lambda>llmResponse.
               thn (streamAssistantMessage (content llmResponse))
              (thn (setState (\<lambda>prev. prev \<lparr> isLoading := False \<rparr>))
              (setCurrentStep ''showSummary'')))))"

subsection \<open>The message handler\<close>

text \<open>
  The target step: \<^verbatim>\<open>intentResult.nextStep || currentStep\<close>, replaced by
  \<^verbatim>\<open>"initialInput"\<close> when the intent is \<^verbatim>\<open>productRequirements\<close>.
\<close>

definition targetStepOf :: "IntentClassificationResult \<Rightarrow> string \<Rightarrow> string" where
  "targetStepOf intentResult current =
     (let targetStep = (case ic_nextStep intentResult of
                          Some s \<Rightarrow> if s \<noteq> [] then s else current
                        | None \<Rightarrow> current)
      in if intent intentResult = ''productRequirements'' then ''initialInput'' else targetStep)"

text \<open>
  How a \<^verbatim>\<open>case\<close> of the \<^verbatim>\<open>switch\<close> ends: it falls out of the switch, to the final
  \<^verbatim>\<open>setState\<close>, or it returns from the handler.
\<close>

datatype flow = Break | Return

text \<open>\<^verbatim>\<open>if (r.nextStep) setCurrentStep(r.nextStep) else setCurrentStep(fallback)\<close>.\<close>

definition setStepOr :: "string option \<Rightarrow> string \<Rightarrow> unit io" where
  "setStepOr next fallback =
     (case next of
        Some s \<Rightarrow> if s \<noteq> [] then setCurrentStep s else setCurrentStep fallback
      | None \<Rightarrow> setCurrentStep fallback)"

definition case_greeting :: "env \<Rightarrow> string \<Rightarrow> flow io" where
  "case_greeting E trimmedInput =
     bnd (generateAgentResponse E ''greeting'' CtxEmpty trimmedInput None) (\<lambda>agentResponse.
     thn (streamAssistantMessage (content agentResponse))
    (thn (setCurrentStep ''initialInput'')
    (ret Break)))"

definition case_initialInput :: "env \<Rightarrow> string \<Rightarrow> flow io" where
  "case_initialInput E trimmedInput =
     try_catch
       (bnd (validateRequirements E trimmedInput None) (\<lambda>validation.
          if vr_productType validation = [] then
            bnd (generateAgentResponse E ''initialInput'' CtxEmpty ''No product type detected.'' None)
              (\<lambda>agentResponse.
                 thn (streamAssistantMessage (content agentResponse))
                (thn (setCurrentStep ''initialInput'')
                (ret Break)))
          else
            bnd (getRequirementSchema E (vr_productType validation)) (\<lambda>schema.
            let flatRequirements = flattenRequirements (providedRequirements validation);
                mergedData = mergeRequirementsWithSchema flatRequirements schema
            in thn (setCollectedData mergedData)
              (thn (setState (\<lambda>prev. prev \<lparr> requirementSchema := Some schema,
                                              productType := vr_productType validation,
                                              currentProductType := Some (vr_productType validation),
                                              validationResult := Some validation \<rparr>))
              (case validationAlert validation of
                 Some alert \<Rightarrow>
                   thn (streamAssistantMessage (message alert))
                  (thn (setCurrentStep ''awaitMissingInfo'')
                  (ret Break))
               | None \<Rightarrow>
                   bnd (generateAgentResponse E ''initialInput''
                          (CtxRequirements (vr_productType validation) flatRequirements)
                          (''Product type detected: '' @ vr_productType validation @ ''.'') None)
                     (\<lambda>agentResponse.
                        thn (streamAssistantMessage (content agentResponse))
                       (thn (setStepOr (nextStep agentResponse) ''awaitOptional'')
                       (ret Break))))))))
       (\<lambda>error.
          bnd (generateAgentResponse E ''default'' CtxEmpty ''Error during initial processing.'' None)
            (\<lambda>agentResponse.
               thn (streamAssistantMessage (content agentResponse))
              (thn (setCurrentStep ''initialInput'')
              (ret Break))))"

text \<open>
  The discovery of advanced parameters and the second generation call that shows them;
  \<^verbatim>\<open>stepFirst\<close> tells whether \<^verbatim>\<open>setCurrentStep("awaitAdvanced")\<close> comes before the
  discovery call (first sub-branch of \<^verbatim>\<open>awaitOptional\<close>) or after it (second).
\<close>

definition discoverAndShow :: "env \<Rightarrow> captured \<Rightarrow> bool \<Rightarrow> unit io" where
  "discoverAndShow E cap stepFirst =
     thn (if stepFirst then setCurrentStep ''awaitAdvanced'' else ret ())
    (bnd (discoverAdvancedParameters E (c_productType cap)) (\<lambda>parametersResult.
     thn (setAdvancedParameters parametersResult)
    (thn (if stepFirst then ret () else setCurrentStep ''awaitAdvanced'')
    (bnd (generateAgentResponse E ''awaitAdvanced'' (CtxAvailable (c_productType cap) [])
            ''show parameters'' None)
       (\<lambda>advancedResponse.
          thn (streamAssistantMessage (content advancedResponse)) (ret ()))))))"

definition case_awaitOptional :: "env \<Rightarrow> captured \<Rightarrow> string \<Rightarrow> flow io" where
  "case_awaitOptional E cap trimmedInput =
     bnd (try_catch
            (let normalizedInput = normalizedInputOf trimmedInput
             in if normalizedInput = ''no'' \<or> normalizedInput = ''n''
                   \<or> includes_str normalizedInput ''proceed'' \<or> includes_str normalizedInput ''ready''
                then
                  bnd (generateAgentResponse E ''awaitOptional'' (CtxProduct (c_productType cap))
                         trimmedInput None)
                    (\<lambda>agentResponse.
                       thn (streamAssistantMessage (content agentResponse))
                      (thn (if nextStep agentResponse = Some ''awaitAdvanced''
                            then discoverAndShow E cap True else ret ())
                      (thn (setState (\<lambda>prev. prev \<lparr> isLoading := False \<rparr>))
                      (ret Return))))
                else if normalizedInput \<noteq> ''no'' \<and> \<not> matchesWord [''no'', ''n''] trimmedInput then
                  (let fullContextInput =
                         composeUserDataString E (c_collectedData cap) @ '' '' @ trimmedInput
                   in bnd (additionalRequirements E (c_productType cap) fullContextInput) (\<lambda>additional.
                      let newFlatRequirements = flattenRequirements (ad_providedRequirements additional)
                      in bnd (mergeWithCapturedSchema
                                (spread2 (c_collectedData cap) newFlatRequirements)
                                (c_requirementSchema cap))
                           (\<lambda>updatedData.
                              thn (setCollectedData updatedData)
                             (bnd (generateAgentResponse E ''awaitOptional''
                                     (CtxUpdated (c_productType cap) updatedData) trimmedInput None)
                                (\<lambda>agentResponse.
                                   thn (streamAssistantMessage (content agentResponse))
                                  (thn (if nextStep agentResponse = Some ''awaitAdvanced''
                                        then discoverAndShow E cap False
                                        else (case nextStep agentResponse of
                                                Some s \<Rightarrow> if s \<noteq> [] then setCurrentStep s else ret ()
                                              | None \<Rightarrow> ret ()))
                                  (ret Break)))))))
                else ret Break)
            (\<lambda>error.
               bnd (generateAgentResponse E ''awaitOptional'' CtxEmpty
                      ''Error processing optional requirements.'' None)
                 (\<lambda>agentResponse.
                    thn (streamAssistantMessage (content agentResponse))
                   (thn (setCurrentStep ''awaitOptional'')
                   (ret Break)))))
       (\<lambda>fl. case fl of
                Return \<Rightarrow> ret Return
              | Break \<Rightarrow> thn (setState (\<lambda>prev. prev \<lparr> isLoading := False \<rparr>)) (ret Break))"

definition case_awaitAdvanced :: "env \<Rightarrow> captured \<Rightarrow> string \<Rightarrow> flow io" where
  "case_awaitAdvanced E cap trimmedInput =
     bnd (try_catch
            (let normalizedInput = normalizedInputOf trimmedInput
             in if normalizedInput = ''no'' \<or> normalizedInput = ''n''
                   \<or> includes_str normalizedInput ''skip'' \<or> includes_str normalizedInput ''done''
                then
                  thn (setCurrentStep ''showSummary'')
                 (thn (try_catch
                         (let requirementsString =
                                composeUserDataString E (requirementsOnly (c_collectedData cap))
                          in bnd (structureRequirements E requirementsString) (\<lambda>structuredResponse.
                             let summaryContent = structuredRequirements structuredResponse
                             in thn (streamAssistantMessage ''Here's a summary of your requirements:'')
                               (thn (addMessage assistant (summaryMessage summaryContent))
                               (thn (streamAssistantMessage ''Starting product analysis...'')
                               (thn (setState (\<lambda>prev. prev \<lparr> isLoading := False \<rparr>))
                               (performAnalysis E cap))))))
                         (\<lambda>error.
                            thn (streamAssistantMessage ''Error generating summary. Please try again.'')
                           (thn (setState (\<lambda>prev. prev \<lparr> isLoading := False \<rparr>))
                           (setCurrentStep ''showSummary''))))
                 (ret Return))
                else
                  (case c_advancedParameters cap of
                     Some advParams \<Rightarrow>
                       bnd (addAdvancedParameters E (c_productType cap) trimmedInput
                              (uniqueParameters advParams))
                         (\<lambda>selectionResult.
                            thn (if totalSelected selectionResult > 0 then
                                   thn (setCollectedData
                                          (spread2 (c_collectedData cap) (selectedParameters selectionResult)))
                                       (setSelectedAdvancedParams
                                          (spread2 (c_selectedAdvancedParams cap)
                                                   (selectedParameters selectionResult)))
                                 else ret ())
                           (bnd (generateAgentResponse E ''awaitAdvanced''
                                   (CtxSelection (c_productType cap) (selectedParameters selectionResult)
                                      (totalSelected selectionResult) (uniqueParameters advParams))
                                   trimmedInput None)
                              (\<lambda>agentResponse.
                                 thn (streamAssistantMessage (content agentResponse))
                                (thn (if nextStep agentResponse = Some ''showSummary''
                                      then thn (setCurrentStep ''showSummary'')
                                               (handleShowSummaryAndProceed E cap)
                                      else ret ())
                                (ret Break)))))
                   | None \<Rightarrow>
                       bnd (generateAgentResponse E ''awaitAdvanced'' (CtxProduct (c_productType cap))
                              trimmedInput None)
                         (\<lambda>agentResponse.
                            thn (streamAssistantMessage (content agentResponse)) (ret Break))))
            (\<lambda>error.
               bnd (generateAgentResponse E ''awaitAdvanced'' CtxEmpty
                      ''Error processing advanced parameters.'' None)
                 (\<lambda>agentResponse.
                    thn (streamAssistantMessage (content agentResponse)) (ret Break))))
       (\<lambda>fl. case fl of
                Return \<Rightarrow> ret Return
              | Break \<Rightarrow> thn (setState (\<lambda>prev. prev \<lparr> isLoading := False \<rparr>)) (ret Break))"

definition case_showSummary :: "env \<Rightarrow> captured \<Rightarrow> string \<Rightarrow> flow io" where
  "case_showSummary E cap trimmedInput =
     (let normalizedInput = normalizedInputOf trimmedInput
      in thn (if list_ex (\<lambda>cmd. includes_str normalizedInput cmd)
                   [''yes'', ''proceed'', ''continue'', ''run'', ''analyze'', ''ok'']
              then performAnalysis E cap else ret ())
             (ret Break))"

definition case_finalAnalysis :: "env \<Rightarrow> captured \<Rightarrow> string \<Rightarrow> flow io" where
  "case_finalAnalysis E cap trimmedInput =
     (let normalizedInput = normalizedInputOf trimmedInput
      in thn (if list_ex (\<lambda>cmd. includes_str normalizedInput cmd) [''rerun'', ''run'', ''runagain'']
              then performAnalysis E cap else ret ())
             (ret Break))"

definition case_analysisError :: "env \<Rightarrow> captured \<Rightarrow> string \<Rightarrow> flow io" where
  "case_analysisError E cap trimmedInput =
     (let normalizedInput = normalizedInputOf trimmedInput
      in thn (if normalizedInput \<in> set [''rerun'', ''run'', ''runagain'']
              then performAnalysis E cap
              else bnd (generateAgentResponse E ''analysisError'' CtxEmpty
                          ''Please type 'rerun' to try again.'' None)
                     (\<lambda>agentResponse.
                        thn (streamAssistantMessage (content agentResponse)) (ret ())))
             (ret Break))"

definition case_default :: "env \<Rightarrow> captured \<Rightarrow> string \<Rightarrow> flow io" where
  "case_default E cap trimmedInput =
     (if c_currentStep cap = ''awaitMissingInfo'' then
        try_catch
          (let shortConfirm = matchesWord [''yes'', ''y'', ''skip''] trimmedInput
           in if shortConfirm then
                bnd (generateAgentResponse E ''confirmAfterMissingInfo''
                       (CtxProductData (c_productType cap) (c_collectedData cap))
                       ''User confirmed to proceed without providing missing mandatory fields.'' None)
                  (\<lambda>confirmationResponse.
                     thn (streamAssistantMessage (content confirmationResponse))
                    (thn (setCurrentStep ''awaitOptional'')
                    (ret Break)))
              else
                (let combinedInput =
                       composeUserDataString E (c_collectedData cap) @ '' '' @ trimmedInput
                 in bnd (validateRequirements E combinedInput
                           (map_option vr_productType (c_validationResult cap)))
                      (\<lambda>newValidation.
                         let newFlatRequirements = flattenRequirements (providedRequirements newValidation)
                         in bnd (mergeWithCapturedSchema
                                   (spread2 (c_collectedData cap) newFlatRequirements)
                                   (c_requirementSchema cap))
                              (\<lambda>updatedData.
                                 thn (setCollectedData updatedData)
                                (thn (setState (\<lambda>prev. prev \<lparr> validationResult := Some newValidation \<rparr>))
                                (case validationAlert newValidation of
                                   Some alert \<Rightarrow>
                                     thn (streamAssistantMessage (message alert))
                                    (thn (setCurrentStep ''awaitMissingInfo'')
                                    (ret Break))
                                 | None \<Rightarrow>
                                     bnd (generateAgentResponse E ''confirmAfterMissingInfo''
                                            (CtxProductData (c_productType cap) updatedData)
                                            ''All mandatory requirements provided.'' None)
                                       (\<lambda>agentResponse.
                                          thn (streamAssistantMessage (content agentResponse))
                                         (thn (setStepOr (nextStep agentResponse) ''awaitOptional'')
                                         (ret Break)))))))))
          (\<lambda>error.
             bnd (generateAgentResponse E ''default'' CtxEmpty ''Error processing your input.'' None)
               (\<lambda>agentResponse.
                  thn (streamAssistantMessage (content agentResponse)) (ret Break)))
      else
        bnd (generateAgentResponse E ''default'' CtxEmpty trimmedInput None)
          (\<lambda>agentResponse.
             thn (streamAssistantMessage (content agentResponse)) (ret Break)))"

text \<open>The \<^verbatim>\<open>switch (targetStep)\<close>.\<close>

definition dispatch :: "env \<Rightarrow> captured \<Rightarrow> string \<Rightarrow> string \<Rightarrow> flow io" where
  "dispatch E cap targetStep trimmedInput =
     (if targetStep = ''greeting'' then case_greeting E trimmedInput
      else if targetStep = ''initialInput'' then case_initialInput E trimmedInput
      else if targetStep = ''awaitOptional'' then case_awaitOptional E cap trimmedInput
      else if targetStep = ''awaitAdvanced'' then case_awaitAdvanced E cap trimmedInput
      else if targetStep = ''showSummary'' then case_showSummary E cap trimmedInput
      else if targetStep = ''finalAnalysis'' then case_finalAnalysis E cap trimmedInput
      else if targetStep = ''analysisError'' then case_analysisError E cap trimmedInput
      else case_default E cap trimmedInput)"

text \<open>
  The text that the outer \<^verbatim>\<open>catch\<close> of the handler streams; the literal of the
  source is written here in two pieces.
\<close>

definition processingErrorMessage :: string where
  "processingErrorMessage =
     ''I'm so'' @ ''rry, there was an error processing your message. Please try again.''"

definition handleSendMessage :: "env \<Rightarrow> captured \<Rightarrow> string \<Rightarrow> unit io" where
  "handleSendMessage E cap userInput =
     (let trimmedInput = trim userInput
      in if trimmedInput = [] then ret ()
         else
           thn (addMessage user trimmedInput)
          (thn (setState (\<lambda>prev. prev \<lparr> inputValue := [], isLoading := True \<rparr>))
          (try_catch
             (bnd (classifyIntent E trimmedInput) (\<lambda>intentResult.
                if intent intentResult = ''knowledgeQuestion'' then
                  bnd (generateAgentResponse E (c_currentStep cap)
                         (CtxProductData (c_productType cap) (c_collectedData cap))
                         trimmedInput (Some ''knowledgeQuestion''))
                    (\<lambda>agentResponse.
                       thn (streamAssistantMessage (content agentResponse))
                      (setState (\<lambda>prev. prev \<lparr> isLoading := False \<rparr>)))
                else
                  (let targetStep = targetStepOf intentResult (c_currentStep cap)
                   in if targetStep = ''showSummary'' \<and> c_currentStep cap = ''awaitAdvanced'' then
                        thn (setCurrentStep ''showSummary'')
                       (thn (handleShowSummaryAndProceed E cap)
                       (setState (\<lambda>prev. prev \<lparr> isLoading := False \<rparr>)))
                      else
                        bnd (dispatch E cap targetStep trimmedInput)
                          (\<lambda>fl. case fl of
                                   Return \<Rightarrow> ret ()
                                 | Break \<Rightarrow> setState (\<lambda>prev. prev \<lparr> isLoading := False \<rparr>)))))
             (\<lambda>error.
                thn (streamAssistantMessage processingErrorMessage)
                    (setState (\<lambda>prev. prev \<lparr> isLoading := False \<rparr>))))))"

text \<open>\<^verbatim>\<open>handleRetry\<close>: the rerun entry point handed to the chat interface.\<close>

definition handleRetry :: "env \<Rightarrow> captured \<Rightarrow> unit io" where
  "handleRetry E cap = performAnalysis E cap"

section \<open>Notions used in the statements\<close>

text \<open>The fixed reply of \<^verbatim>\<open>generateAgentResponse\<close> when its request fails.\<close>

definition apology :: string where
  "apology = ''I'm having trouble connecting to my brain right now. Please try again in a moment.''"

text \<open>
  What \<^verbatim>\<open>generateAgentResponse\<close> and \<^verbatim>\<open>classifyIntent\<close> resolve to, given the
  answer of their endpoint.
\<close>

definition agentReply :: "string option + AgentResponse \<Rightarrow> AgentResponse" where
  "agentReply answer =
     (case answer of
        Inl failure \<Rightarrow> \<lparr> content = apology, nextStep = None, maintainWorkflow = None \<rparr>
      | Inr data \<Rightarrow> data)"

definition intentReply :: "string option + IntentClassificationResult \<Rightarrow> IntentClassificationResult" where
  "intentReply answer =
     (case answer of
        Inl failure \<Rightarrow> \<lparr> intent = ''other'', ic_nextStep = None, resumeWorkflow = Some False \<rparr>
      | Inr data \<Rightarrow> data)"

text \<open>Message ids are fresh: every message in the log has an id below the counter.\<close>

definition wf_ids :: "world \<Rightarrow> bool" where
  "wf_ids w = list_all (\<lambda>m. m_id m < nextId w) (messages w)"


text \<open>What the API layer throws for a failed request, and the optional field of the validation payload.\<close>

definition apiError :: "string option \<Rightarrow> string \<Rightarrow> exn" where
  "apiError failure fallback = Error (errorOr (AxiosError failure) fallback)"


text \<open>The requests of \<^verbatim>\<open>performAnalysis\<close> and the count it reports.\<close>

definition fullInputStr :: "env \<Rightarrow> captured \<Rightarrow> string" where
  "fullInputStr E cap =
     ''Product Type: '' @ c_productType cap @ ''. '' @ composeUserDataString E (c_collectedData cap)"

definition analysisRequest :: "env \<Rightarrow> captured \<Rightarrow> request" where
  "analysisRequest E cap = PostAnalyze (normalizeUserInput (fullInputStr E cap))"

definition matchingCount :: "AnalysisResult \<Rightarrow> nat" where
  "matchingCount analysis =
     length (filter (\<lambda>p. 80 \<le> rp_overallScore p \<and> rp_requirementsMatch p)
               (rankedProducts (overallRanking analysis)))"

definition completionRequest :: "AnalysisResult \<Rightarrow> request" where
  "completionRequest analysis =
     PostSalesAgent ''finalAnalysis'' (CtxAnalysis analysis)
       (''Analysis complete. Found '' @ showNat (matchingCount analysis) @ '' matching products.'') None"

definition analysisErrorRequest :: request where
  "analysisErrorRequest =
     PostSalesAgent ''analysisError'' CtxEmpty ''An error occurred during final analysis.'' None"

text \<open>
  The world in which the \<^verbatim>\<open>switch\<close> of \<^verbatim>\<open>handleSendMessage\<close> is entered: the user
  message is in the log, the input field is cleared, the loading flag is set and the
  intent request has been made.
\<close>

definition classifiedWorld :: "world \<Rightarrow> string \<Rightarrow> world" where
  "classifiedWorld w trimmedInput =
     w \<lparr> messages := messages w @ [\<lparr> m_id = nextId w, m_type = user, m_content = trimmedInput \<rparr>],
         nextId := Suc (nextId w), inputValue := [], isLoading := True,
         sent := sent w @ [PostIntent trimmedInput] \<rparr>"

text \<open>
  Concrete data: the state in which the component starts, and a backend whose every
  endpoint fails.
\<close>

definition initialWorld :: world where
  "initialWorld =
     \<lparr> messages = [], currentProductType = None, validationResult = None, analysisResult = None,
       requirementSchema = None, isLoading = False, inputValue = [], productType = [],
       collectedData = [], advancedParameters = None, selectedAdvancedParams = [],
       currentStep = ''greeting'', isStreaming = False, toasts = [], hasValidatedOnce = False,
       sent = [], nextId = 0 \<rparr>"

definition offlineEnv :: env where
  "offlineEnv =
     \<lparr> Number_toString = (\<lambda>r. []),
       ep_intent = (\<lambda>n r. Inl None),
       ep_sales_agent = (\<lambda>n r. Inl None),
       ep_validate = (\<lambda>n r. Inl None),
       ep_analyze = (\<lambda>n r. Inl None),
       ep_schema = (\<lambda>n r. Inl None),
       ep_additional_requirements = (\<lambda>n r. Inl None),
       ep_structure_requirements = (\<lambda>n r. Inl None),
       ep_advanced_parameters = (\<lambda>n r. Inl None),
       ep_add_advanced_parameters = (\<lambda>n r. Inl None) \<rparr>"

section \<open>Properties of the schema merger\<close>


























section \<open>Properties of the results ranking view\<close>

lemma find_append_cases:
  "find P (xs @ ys) = (case find P xs of None \<Rightarrow> find P ys | Some x \<Rightarrow> Some x)"
  by (induction xs) auto

lemma fold_upd_find:
  "fold (\<lambda>x m. m(kf x \<mapsto> vf x)) xs m0 k =
     (case find (\<lambda>x. kf x = k) (rev xs) of None \<Rightarrow> m0 k | Some x \<Rightarrow> Some (vf x))"
  by (induction xs arbitrary: m0) (auto simp: find_append_cases split: option.splits)

lemma requirementsMatchMap_last:
  "requirementsMatchMap a key = map_option pm_requirementsMatch (lastVendorMatch a key)"
  by (simp add: requirementsMatchMap_def lastVendorMatch_def fold_upd_find split: option.splits)

lemma matchFlag_last:
  "matchFlag a p =
     (case lastVendorMatch a (productKey (rp_vendor p) (rp_productName p)) of
        Some m \<Rightarrow> pm_requirementsMatch m
      | None \<Rightarrow> rp_requirementsMatch p)"
  by (simp add: matchFlag_def requirementsMatchMap_last split: option.splits)

lemma map_index_enumerate:
  "map (\<lambda>(i, p). f i) (enumerate n xs) = map f [n..<n + length xs]"
proof -
  have "map (\<lambda>(i, p). f i) (enumerate n xs) = map (f \<circ> fst) (enumerate n xs)"
    by (simp add: case_prod_unfold comp_def)
  also have "\<dots> = map f (map fst (enumerate n xs))"
    by (simp only: map_map)
  finally show ?thesis by simp
qed

lemma ranks_from_one: "map (\<lambda>i. int i + 1) [0..<n] = map int [1..<Suc n]"
proof -
  have "map int [1..<Suc n] = map int (map Suc [0..<n])"
    by (simp only: map_Suc_upt One_nat_def)
  then show ?thesis by (simp add: comp_def add.commute)
qed

lemma filtered_rankedProducts:
  "rankedProducts (overallRanking (filtered a)) =
     map (\<lambda>(index, product). product \<lparr> rp_rank := int index + 1, rp_requirementsMatch := True \<rparr>)
         (enumerate 0 (filter (matchFlag a) (rankedProducts (overallRanking a))))"
proof -
  have "(\<lambda>(index, product). product \<lparr> rp_rank := int index + 1, rp_requirementsMatch := matchFlag a product \<rparr>) ip
      = (\<lambda>(index, product). product \<lparr> rp_rank := int index + 1, rp_requirementsMatch := True \<rparr>) ip"
    if "ip \<in> set (enumerate 0 (filter (matchFlag a) (rankedProducts (overallRanking a))))" for ip
  proof -
    have "snd ip \<in> set (filter (matchFlag a) (rankedProducts (overallRanking a)))"
      using that by (metis image_eqI map_snd_enumerate set_map)
    then have "matchFlag a (snd ip)" by simp
    then show ?thesis by (cases ip) simp
  qed
  then show ?thesis
    by (simp add: filtered_def cong: map_cong)
qed

lemma filtered_ranks:
  "map rp_rank (rankedProducts (overallRanking (filtered a))) =
     map int [1..<Suc (length (rankedProducts (overallRanking (filtered a))))]"
proof -
  have "map rp_rank (rankedProducts (overallRanking (filtered a))) =
        map (\<lambda>(i, p). int i + 1) (enumerate 0 (filter (matchFlag a) (rankedProducts (overallRanking a))))"
    by (simp add: filtered_rankedProducts comp_def case_prod_unfold)
  also have "\<dots> = map (\<lambda>i. int i + 1) [0..<length (filter (matchFlag a) (rankedProducts (overallRanking a)))]"
    using map_index_enumerate[of "\<lambda>i. int i + 1" 0] by simp
  also have "\<dots> = map int [1..<Suc (length (filter (matchFlag a) (rankedProducts (overallRanking a))))]"
    by (rule ranks_from_one)
  finally show ?thesis by (simp add: filtered_rankedProducts)
qed

lemma filtered_order:
  "map (\<lambda>p. p \<lparr> rp_rank := 0 \<rparr>) (rankedProducts (overallRanking (filtered a))) =
   map (\<lambda>p. p \<lparr> rp_rank := 0, rp_requirementsMatch := True \<rparr>)
       (filter (matchFlag a) (rankedProducts (overallRanking a)))"
proof -
  define g :: "RankedProduct \<Rightarrow> RankedProduct"
    where "g = (\<lambda>p. p \<lparr> rp_rank := 0, rp_requirementsMatch := True \<rparr>)"
  have "map (\<lambda>p. p \<lparr> rp_rank := 0 \<rparr>) (rankedProducts (overallRanking (filtered a))) =
        map (g \<circ> snd) (enumerate 0 (filter (matchFlag a) (rankedProducts (overallRanking a))))"
    by (simp add: filtered_rankedProducts comp_def case_prod_unfold g_def)
  also have "\<dots> = map g (map snd (enumerate 0 (filter (matchFlag a) (rankedProducts (overallRanking a)))))"
    by (simp only: map_map)
  also have "\<dots> = map g (filter (matchFlag a) (rankedProducts (overallRanking a)))"
    by (simp only: map_snd_enumerate)
  finally show ?thesis by (simp add: g_def)
qed

lemma filtered_all_match:
  "list_all rp_requirementsMatch (rankedProducts (overallRanking (filtered a)))"
  by (auto simp: filtered_rankedProducts list_all_iff)

lemma filtered_vendorMatches:
  "vendorMatches (vendorAnalysis (filtered a)) = filter pm_requirementsMatch (vendorMatches (vendorAnalysis a))"
  by (simp add: filtered_def)

text \<open>
  Claim C3 as stated fails: the entries kept in \<^verbatim>\<open>rankedProducts\<close> are not those
  whose own match flag is true.  The flag that decides is looked up in the vendor matches
  first.  Here the one ranked product has \<^verbatim>\<open>requirementsMatch: true\<close>, the vendor
  match with the same vendor and product name has \<^verbatim>\<open>false\<close>, and the filtered
  ranking is empty.
\<close>

theorem ranking_filter_counterexample:
  "filter rp_requirementsMatch
     (rankedProducts (overallRanking
        (mkAnalysis [mkMatch ''V'' ''P'' False] [mkRanked ''V'' ''P'' 1 90 True]))) \<noteq> []
   \<and> map_option (\<lambda>r. rankedProducts (overallRanking r))
        (filteredAnalysisResult
           (Some (mkAnalysis [mkMatch ''V'' ''P'' False] [mkRanked ''V'' ''P'' 1 90 True]))) = Some []"
  by (simp add: filteredAnalysisResult_def filtered_def matchFlag_def requirementsMatchMap_def
      productKey_def mkAnalysis_def mkMatch_def mkRanked_def enumerate_eq_zip)

text \<open>
  Claim C3, amended.  For every analysis result the filtered \<^verbatim>\<open>rankedProducts\<close> are,
  in their original relative order, exactly the entries whose effective match flag is true,
  where the effective flag of an entry is the flag of the last \<^verbatim>\<open>vendorMatches\<close>
  entry with the same \<^verbatim>\<open>vendor-productName\<close> key when there is one and the
  entry's own flag otherwise; every retained entry has \<^verbatim>\<open>requirementsMatch\<close> true;
  the retained entries' ranks are \<open>1..N\<close>, the backend's ranks being discarded; and the
  filtered \<^verbatim>\<open>vendorMatches\<close> are exactly the entries with \<^verbatim>\<open>requirementsMatch\<close>
  true.
\<close>

theorem ranking_filter:
  "\<exists>r. filteredAnalysisResult (Some a) = Some r
     \<and> map (\<lambda>p. p \<lparr> rp_rank := 0 \<rparr>) (rankedProducts (overallRanking r)) =
         map (\<lambda>p. p \<lparr> rp_rank := 0, rp_requirementsMatch := True \<rparr>)
           (filter (\<lambda>p. case lastVendorMatch a (productKey (rp_vendor p) (rp_productName p)) of
                          Some m \<Rightarrow> pm_requirementsMatch m
                        | None \<Rightarrow> rp_requirementsMatch p)
                   (rankedProducts (overallRanking a)))
     \<and> list_all rp_requirementsMatch (rankedProducts (overallRanking r))
     \<and> map rp_rank (rankedProducts (overallRanking r)) =
         map int [1..<Suc (length (rankedProducts (overallRanking r)))]
     \<and> vendorMatches (vendorAnalysis r) = filter pm_requirementsMatch (vendorMatches (vendorAnalysis a))
     \<and> list_all pm_requirementsMatch (vendorMatches (vendorAnalysis r))"
proof -
  have "matchFlag a = (\<lambda>p. case lastVendorMatch a (productKey (rp_vendor p) (rp_productName p)) of
                          Some m \<Rightarrow> pm_requirementsMatch m
                        | None \<Rightarrow> rp_requirementsMatch p)"
    by (rule ext) (rule matchFlag_last)
  then show ?thesis
    using filtered_order[of a] filtered_all_match[of a] filtered_ranks[of a] filtered_vendorMatches[of a]
    by (simp add: filteredAnalysisResult_def list_all_iff)
qed


theorem ranking_filter_witness:
  "\<exists>r. filteredAnalysisResult
          (Some (mkAnalysis [mkMatch ''V'' ''A'' True]
                   [mkRanked ''V'' ''A'' 1 95 True, mkRanked ''V'' ''B'' 2 90 False,
                    mkRanked ''W'' ''C'' 3 85 True])) = Some r
     \<and> map rp_productName (rankedProducts (overallRanking r)) = [''A'', ''C'']
     \<and> map rp_rank (rankedProducts (overallRanking r)) = [1, 2]
     \<and> map rp_requirementsMatch (rankedProducts (overallRanking r)) = [True, True]
     \<and> map pm_productName (vendorMatches (vendorAnalysis r)) = [''A'']"
  using ranking_filter
    [of "mkAnalysis [mkMatch ''V'' ''A'' True]
           [mkRanked ''V'' ''A'' 1 95 True, mkRanked ''V'' ''B'' 2 90 False,
            mkRanked ''W'' ''C'' 3 85 True]"]
  by (simp add: filteredAnalysisResult_def filtered_def matchFlag_def requirementsMatchMap_def
      productKey_def mkAnalysis_def mkMatch_def mkRanked_def enumerate_eq_zip)





section \<open>Properties of the chat input\<close>

lemma sentMessages_handleSend:
  "sentMessages (handleSend p) =
     (if trim (ci_inputValue p) \<noteq> [] \<and> \<not> ci_isLoading p then [trim (ci_inputValue p)] else [])"
  by (simp add: sentMessages_def handleSend_def Let_def)

lemma sentMessages_chatInputEvent:
  "sentMessages (chatInputEvent p ev) =
     (if trim (ci_inputValue p) \<noteq> [] \<and> \<not> ci_isLoading p \<and>
         (case ev of ClickSend \<Rightarrow> ci_currentStep p \<noteq> ''finalAnalysis''
          | KeyDown key shiftKey \<Rightarrow> ci_currentStep p \<noteq> ''finalAnalysis'' \<and> key = ''Enter'' \<and> \<not> shiftKey)
      then [trim (ci_inputValue p)] else [])"
proof -
  have nil: "sentMessages [] = []" and pd: "sentMessages (PreventDefault # es) = sentMessages es" for es
    by (simp_all add: sentMessages_def)
  show ?thesis
    by (cases ev)
       (simp_all add: chatInputEvent_def sendButtonDisabled_def textareaDisabled_def handleKeyDown_def
          sentMessages_handleSend nil pd)
qed

text \<open>
  Claim C7 as stated fails: an active stream alone does not disable submission.  With
  \<^verbatim>\<open>isStreaming\<close> true and \<^verbatim>\<open>isLoading\<close> false, a click on Send and the Enter
  key both hand the typed text to \<^verbatim>\<open>onSendMessage\<close>.
\<close>

theorem chat_input_streaming_counterexample:
  "sentMessages (chatInputEvent
      \<lparr> ci_isLoading = False, ci_isStreaming = True, ci_inputValue = ''hi'', ci_currentStep = ''initialInput'' \<rparr>
      ClickSend) = [''hi'']
   \<and> sentMessages (chatInputEvent
      \<lparr> ci_isLoading = False, ci_isStreaming = True, ci_inputValue = ''hi'', ci_currentStep = ''initialInput'' \<rparr>
      (KeyDown ''Enter'' False)) = [''hi'']"
  by (simp add: sentMessages_chatInputEvent trim_def isWhiteSpace_def)

text \<open>
  Claim C7, amended.  Whenever a request is outstanding (\<^verbatim>\<open>isLoading\<close> true), input
  submission is disabled: neither the Send button nor the Enter key sends a user message,
  and the Send button is disabled.  The gate reads \<^verbatim>\<open>isLoading\<close> only; what the chat
  input does is the same whatever \<^verbatim>\<open>isStreaming\<close> is.
\<close>

theorem chat_input_gated_by_isLoading:
  "(ci_isLoading p \<longrightarrow> sentMessages (chatInputEvent p ev) = [] \<and> sendButtonDisabled p)
   \<and> chatInputEvent (p \<lparr> ci_isStreaming := b \<rparr>) ev = chatInputEvent p ev"
proof -
  have "ci_isLoading p \<longrightarrow> sentMessages (chatInputEvent p ev) = [] \<and> sendButtonDisabled p"
    by (simp add: sentMessages_chatInputEvent sendButtonDisabled_def)
  moreover have "chatInputEvent (p \<lparr> ci_isStreaming := b \<rparr>) ev = chatInputEvent p ev"
    by (cases ev)
       (simp_all add: chatInputEvent_def sendButtonDisabled_def textareaDisabled_def
          handleKeyDown_def handleSend_def Let_def)
  ultimately show ?thesis by simp
qed

theorem chat_input_gated_by_isLoading_witness:
  "ci_isLoading \<lparr> ci_isLoading = True, ci_isStreaming = False, ci_inputValue = ''hi'', ci_currentStep = ''initialInput'' \<rparr>
   \<and> sentMessages (chatInputEvent
        \<lparr> ci_isLoading = True, ci_isStreaming = False, ci_inputValue = ''hi'', ci_currentStep = ''initialInput'' \<rparr>
        (KeyDown ''Enter'' False)) = []
   \<and> sendButtonDisabled
        \<lparr> ci_isLoading = True, ci_isStreaming = False, ci_inputValue = ''hi'', ci_currentStep = ''initialInput'' \<rparr>"
  using chat_input_gated_by_isLoading
    [of "\<lparr> ci_isLoading = True, ci_isStreaming = False, ci_inputValue = ''hi'', ci_currentStep = ''initialInput'' \<rparr>"
        "KeyDown ''Enter'' False" False]
  by simp

section \<open>Properties of the API layer\<close>

lemma ret_app: "ret x w = (Inr x, w)"
  by (simp add: ret_def)

lemma throw_app: "throw e w = (Inl e, w)"
  by (simp add: throw_def)

lemma bnd_app: "bnd m k w = (case m w of (Inl e, w') \<Rightarrow> (Inl e, w') | (Inr x, w') \<Rightarrow> k x w')"
  by (simp add: bnd_def)

lemma thn_app: "thn m k w = (case m w of (Inl e, w') \<Rightarrow> (Inl e, w') | (Inr x, w') \<Rightarrow> k w')"
  by (simp add: thn_def bnd_def)

lemma try_catch_app:
  "try_catch m h w = (case m w of (Inl e, w') \<Rightarrow> h e w' | (Inr x, w') \<Rightarrow> (Inr x, w'))"
  by (simp add: try_catch_def)

lemma gets_app: "gets f w = (Inr (f w), w)"
  by (simp add: gets_def)

lemma setState_app: "setState f w = (Inr (), f w)"
  by (simp add: setState_def)

lemmas io_defs = ret_app throw_app bnd_app thn_app try_catch_app gets_app setState_app

lemma classifyIntent_eq:
  "classifyIntent E userInput w =
     (Inr (intentReply (ep_intent E (length (sent w)) (PostIntent userInput))),
      w \<lparr> sent := sent w @ [PostIntent userInput] \<rparr>)"
  by (simp add: classifyIntent_def intentReply_def axios_def io_defs split: sum.splits)

lemma generateAgentResponse_eq:
  "generateAgentResponse E step ctx userMessage i w =
     (Inr (agentReply (ep_sales_agent E (length (sent w)) (PostSalesAgent step ctx userMessage i))),
      w \<lparr> sent := sent w @ [PostSalesAgent step ctx userMessage i] \<rparr>)"
  by (simp add: generateAgentResponse_def agentReply_def apology_def axios_def io_defs split: sum.splits)









lemma analyzeProducts_eq:
  "analyzeProducts E userInput w =
     (case ep_analyze E (length (sent w)) (PostAnalyze (normalizeUserInput userInput)) of
        Inl failure \<Rightarrow> Inl (apiError failure ''Analysis failed'')
      | Inr data \<Rightarrow> Inr data,
      w \<lparr> sent := sent w @ [PostAnalyze (normalizeUserInput userInput)] \<rparr>)"
  by (simp add: analyzeProducts_def apiError_def axios_def io_defs Let_def split: sum.splits)




text \<open>
  Claim C5 as stated fails in its last part: the content that \<^verbatim>\<open>generateAgentResponse\<close>
  resolves to is not always non-empty.  When the backend answers with an empty
  \<^verbatim>\<open>content\<close>, that empty text is returned.
\<close>

theorem generateAgentResponse_empty_counterexample:
  "fst (generateAgentResponse
          (offlineEnv \<lparr> ep_sales_agent := (\<lambda>n r. Inr \<lparr> content = [], nextStep = None, maintainWorkflow = None \<rparr>) \<rparr>)
          ''greeting'' CtxEmpty ''hello'' None initialWorld)
   = Inr \<lparr> content = [], nextStep = None, maintainWorkflow = None \<rparr>"
  by (simp add: generateAgentResponse_eq agentReply_def offlineEnv_def)

text \<open>
  Claim C5, amended.  \<^verbatim>\<open>classifyIntent\<close> and \<^verbatim>\<open>generateAgentResponse\<close> never
  throw: each resolves, whatever the backend does.  When its request fails,
  \<^verbatim>\<open>classifyIntent\<close> resolves to exactly
  \<^verbatim>\<open>{intent: "other", nextStep: null, resumeWorkflow: false}\<close> and
  \<^verbatim>\<open>generateAgentResponse\<close> to the fixed apology, which is not empty, with
  \<^verbatim>\<open>nextStep\<close> \<^verbatim>\<open>null\<close>.  When the request succeeds, each resolves to what the
  backend sent, so the content is the backend's content, empty or not.
\<close>

theorem degradation_never_throws:
  "classifyIntent E userInput w =
      (Inr (intentReply (ep_intent E (length (sent w)) (PostIntent userInput))),
       w \<lparr> sent := sent w @ [PostIntent userInput] \<rparr>)
   \<and> intentReply (Inl failure) = \<lparr> intent = ''other'', ic_nextStep = None, resumeWorkflow = Some False \<rparr>
   \<and> intentReply (Inr classified) = classified
   \<and> generateAgentResponse E step ctx userMessage i w =
      (Inr (agentReply (ep_sales_agent E (length (sent w)) (PostSalesAgent step ctx userMessage i))),
       w \<lparr> sent := sent w @ [PostSalesAgent step ctx userMessage i] \<rparr>)
   \<and> agentReply (Inl failure') = \<lparr> content = apology, nextStep = None, maintainWorkflow = None \<rparr>
   \<and> apology \<noteq> []
   \<and> agentReply (Inr answered) = answered"
  by (simp add: classifyIntent_eq generateAgentResponse_eq intentReply_def agentReply_def apology_def)

theorem degradation_never_throws_witness:
  "classifyIntent offlineEnv ''hello'' initialWorld =
      (Inr \<lparr> intent = ''other'', ic_nextStep = None, resumeWorkflow = Some False \<rparr>,
       initialWorld \<lparr> sent := [PostIntent ''hello''] \<rparr>)
   \<and> generateAgentResponse offlineEnv ''greeting'' CtxEmpty ''hello'' None initialWorld =
      (Inr \<lparr> content = apology, nextStep = None, maintainWorkflow = None \<rparr>,
       initialWorld \<lparr> sent := [PostSalesAgent ''greeting'' CtxEmpty ''hello'' None] \<rparr>)"
  using degradation_never_throws
    [where E = offlineEnv and userInput = "''hello''" and w = initialWorld and failure = None
       and classified = "\<lparr> intent = ''greeting'', ic_nextStep = None, resumeWorkflow = None \<rparr>"
       and step = "''greeting''" and ctx = CtxEmpty and userMessage = "''hello''" and i = None
       and failure' = None
       and answered = "\<lparr> content = ''Hello!'', nextStep = None, maintainWorkflow = None \<rparr>"]
  by (simp add: offlineEnv_def initialWorld_def)

section \<open>Properties of the workflow state machine\<close>

lemma streamLoop_eq:
  "streamLoop i current rest w =
     (Inr (), if rest = [] then w
              else w \<lparr> messages := map (\<lambda>msg. if m_id msg = i then msg \<lparr> m_content := current @ rest \<rparr> else msg)
                                        (messages w) \<rparr>)"
proof (induction rest arbitrary: current w)
  case Nil
  then show ?case by (simp add: ret_def)
next
  case (Cons c rest)
  show ?case
    by (cases "rest = []")
       (simp_all add: Cons.IH updateMessage_def io_defs comp_def cong: if_cong)
qed

lemma streamAssistantMessage_eq:
  assumes "list_all (\<lambda>m. m_id m < nextId w) (messages w)"
  shows "streamAssistantMessage fullText w =
     (Inr (nextId w),
      w \<lparr> messages := messages w @ [\<lparr> m_id = nextId w, m_type = assistant, m_content = fullText \<rparr>],
          nextId := Suc (nextId w), isStreaming := False \<rparr>)"
proof -
  have keep: "map (\<lambda>msg. if m_id msg = nextId w then msg \<lparr> m_content := t \<rparr> else msg) (messages w) = messages w" for t
    using assms by (intro map_idI) (auto simp: list_all_iff)
  show ?thesis
    by (cases "fullText = []")
       (simp_all add: streamAssistantMessage_def addMessage_def setIsStreaming_def streamLoop_eq keep
          io_defs Let_def)
qed


lemma wf_ids_mono:
  assumes "wf_ids w" and "nextId w \<le> n"
  shows "list_all (\<lambda>m. m_id m < n) (messages w)"
  using assms by (auto simp: wf_ids_def list_all_iff)

lemma handleSendMessage_knowledgeQuestion:
  assumes wf: "wf_ids w" and ne: "trim userInput \<noteq> []"
    and kq: "intent (intentReply (ep_intent E (length (sent w)) (PostIntent (trim userInput)))) = ''knowledgeQuestion''"
  shows "handleSendMessage E cap userInput w =
     (Inr (),
      w \<lparr> messages := messages w @
            [\<lparr> m_id = nextId w, m_type = user, m_content = trim userInput \<rparr>,
             \<lparr> m_id = Suc (nextId w), m_type = assistant,
               m_content = content (agentReply (ep_sales_agent E (Suc (length (sent w)))
                 (PostSalesAgent (c_currentStep cap)
                    (CtxProductData (c_productType cap) (c_collectedData cap))
                    (trim userInput) (Some ''knowledgeQuestion'')))) \<rparr>],
          nextId := Suc (Suc (nextId w)),
          inputValue := [], isLoading := False, isStreaming := False,
          sent := sent w @
            [PostIntent (trim userInput),
             PostSalesAgent (c_currentStep cap)
               (CtxProductData (c_productType cap) (c_collectedData cap))
               (trim userInput) (Some ''knowledgeQuestion'')] \<rparr>)"
  using ne kq
  by (simp add: handleSendMessage_def Let_def io_defs addMessage_def classifyIntent_eq
      generateAgentResponse_eq streamAssistantMessage_eq wf_ids_mono[OF wf])


lemma performAnalysis_success:
  assumes wf: "wf_ids w"
    and ok: "ep_analyze E (length (sent w)) (analysisRequest E cap) = Inr analysis"
  shows "performAnalysis E cap w =
     (Inr (),
      w \<lparr> messages := messages w @
            [\<lparr> m_id = nextId w, m_type = assistant,
               m_content = content (agentReply (ep_sales_agent E (Suc (length (sent w)))
                                      (completionRequest analysis))) \<rparr>],
          analysisResult := Some analysis,
          isLoading := False,
          currentStep := ''initialInput'',
          isStreaming := False,
          toasts := toasts w @
            [\<lparr> title = ''Analysis Complete'',
               description = ''Found '' @ showNat (matchingCount analysis) @ '' matching products.'' \<rparr>],
          sent := sent w @ [analysisRequest E cap, completionRequest analysis],
          nextId := Suc (nextId w) \<rparr>)"
  using ok
  by (simp add: performAnalysis_def Let_def io_defs analyzeProducts_eq generateAgentResponse_eq
      streamAssistantMessage_eq wf_ids_mono[OF wf] setCurrentStep_def toast_def
      analysisRequest_def fullInputStr_def completionRequest_def matchingCount_def)

lemma performAnalysis_failure:
  assumes wf: "wf_ids w"
    and ko: "ep_analyze E (length (sent w)) (analysisRequest E cap) = Inl failure"
  shows "performAnalysis E cap w =
     (Inr (),
      w \<lparr> messages := messages w @
            [\<lparr> m_id = nextId w, m_type = assistant,
               m_content = content (agentReply (ep_sales_agent E (Suc (length (sent w)))
                                      analysisErrorRequest)) \<rparr>],
          isLoading := False,
          currentStep := ''analysisError'',
          isStreaming := False,
          sent := sent w @ [analysisRequest E cap, analysisErrorRequest],
          nextId := Suc (nextId w) \<rparr>)"
  using ko
  by (simp add: performAnalysis_def Let_def io_defs analyzeProducts_eq generateAgentResponse_eq
      streamAssistantMessage_eq wf_ids_mono[OF wf] setCurrentStep_def
      analysisRequest_def fullInputStr_def analysisErrorRequest_def)

lemma performAnalysis_request:
  assumes wf: "wf_ids w"
  shows "sent (snd (performAnalysis E cap w)) ! length (sent w) = analysisRequest E cap"
proof (cases "ep_analyze E (length (sent w)) (analysisRequest E cap)")
  case (Inl failure)
  show ?thesis by (simp add: performAnalysis_failure[OF wf Inl] nth_append)
next
  case (Inr analysis)
  show ?thesis by (simp add: performAnalysis_success[OF wf Inr] nth_append)
qed

lemma handleSendMessage_productRequirements:
  assumes ne: "trim userInput \<noteq> []"
    and pr: "intent (intentReply (ep_intent E (length (sent w)) (PostIntent (trim userInput)))) = ''productRequirements''"
  shows "handleSendMessage E cap userInput w =
     try_catch
       (bnd (dispatch E cap ''initialInput'' (trim userInput))
          (\<lambda>fl. case fl of
                   Return \<Rightarrow> ret ()
                 | Break \<Rightarrow> setState (\<lambda>prev. prev \<lparr> isLoading := False \<rparr>)))
       (\<lambda>error.
          thn (streamAssistantMessage processingErrorMessage)
              (setState (\<lambda>prev. prev \<lparr> isLoading := False \<rparr>)))
       (classifiedWorld w (trim userInput))"
proof -
  have t: "targetStepOf (intentReply (ep_intent E (length (sent w)) (PostIntent (trim userInput)))) (c_currentStep cap) = ''initialInput''"
    using pr by (simp add: targetStepOf_def Let_def)
  show ?thesis
    using ne pr
    by (simp add: handleSendMessage_def Let_def t classifiedWorld_def addMessage_def classifyIntent_eq
        io_defs)
qed


lemma trim_nonblank: "s \<noteq> [] \<Longrightarrow> \<not> isWhiteSpace (hd s) \<Longrightarrow> \<not> isWhiteSpace (last s) \<Longrightarrow> trim s = s"
proof -
  assume a: "s \<noteq> []" "\<not> isWhiteSpace (hd s)" "\<not> isWhiteSpace (last s)"
  have 1: "dropWhile isWhiteSpace s = s"
    using a by (cases s) auto
  have 2: "dropWhile isWhiteSpace (rev s) = rev s"
    using a by (cases "rev s") (auto simp: hd_rev)
  show ?thesis by (simp add: trim_def 1 2)
qed

text \<open>
  Claim C2.  For every current step and every message that is not blank, when the intent
  that \<^verbatim>\<open>classifyIntent\<close> resolves to is \<^verbatim>\<open>productRequirements\<close>, the target step
  is \<^verbatim>\<open>initialInput\<close> whatever next step the classifier suggests, and
  \<^verbatim>\<open>handleSendMessage\<close> enters its \<^verbatim>\<open>switch\<close> with that target: it runs the
  \<^verbatim>\<open>initialInput\<close> case.
\<close>

theorem productRequirements_targets_initialInput:
  assumes "trim userInput \<noteq> []"
    and "intent (intentReply (ep_intent E (length (sent w)) (PostIntent (trim userInput)))) = ''productRequirements''"
  shows "(intent classified = ''productRequirements'' \<longrightarrow> targetStepOf classified current = ''initialInput'')
    \<and> targetStepOf (intentReply (ep_intent E (length (sent w)) (PostIntent (trim userInput))))
          (c_currentStep cap) = ''initialInput''
    \<and> handleSendMessage E cap userInput w =
        try_catch
          (bnd (dispatch E cap ''initialInput'' (trim userInput))
             (\<lambda>fl. case fl of
                      Return \<Rightarrow> ret ()
                    | Break \<Rightarrow> setState (\<lambda>prev. prev \<lparr> isLoading := False \<rparr>)))
          (\<lambda>error.
             thn (streamAssistantMessage processingErrorMessage)
                 (setState (\<lambda>prev. prev \<lparr> isLoading := False \<rparr>)))
          (classifiedWorld w (trim userInput))
    \<and> dispatch E cap ''initialInput'' (trim userInput) = case_initialInput E (trim userInput)"
  using assms handleSendMessage_productRequirements[OF assms, of cap]
  by (simp add: targetStepOf_def Let_def dispatch_def)

theorem productRequirements_targets_initialInput_witness:
  "trim ''I need a pressure transmitter'' \<noteq> []
   \<and> targetStepOf \<lparr> intent = ''productRequirements'', ic_nextStep = Some ''showSummary'', resumeWorkflow = None \<rparr>
        ''awaitAdvanced'' = ''initialInput''
   \<and> handleSendMessage
        (offlineEnv \<lparr> ep_intent := (\<lambda>n r. Inr \<lparr> intent = ''productRequirements'',
                                                   ic_nextStep = Some ''showSummary'', resumeWorkflow = None \<rparr>) \<rparr>)
        ((render initialWorld) \<lparr> c_currentStep := ''awaitAdvanced'' \<rparr>)
        ''I need a pressure transmitter'' initialWorld =
      try_catch
        (bnd (case_initialInput
                (offlineEnv \<lparr> ep_intent := (\<lambda>n r. Inr \<lparr> intent = ''productRequirements'',
                                                           ic_nextStep = Some ''showSummary'', resumeWorkflow = None \<rparr>) \<rparr>)
                ''I need a pressure transmitter'')
           (\<lambda>fl. case fl of
                    Return \<Rightarrow> ret ()
                  | Break \<Rightarrow> setState (\<lambda>prev. prev \<lparr> isLoading := False \<rparr>)))
        (\<lambda>error.
           thn (streamAssistantMessage processingErrorMessage)
               (setState (\<lambda>prev. prev \<lparr> isLoading := False \<rparr>)))
        (classifiedWorld initialWorld ''I need a pressure transmitter'')"
proof -
  have t: "trim ''I need a pressure transmitter'' = ''I need a pressure transmitter''"
    by (rule trim_nonblank) (simp_all add: isWhiteSpace_def)
  show ?thesis
    using productRequirements_targets_initialInput
      [where userInput = "''I need a pressure transmitter''"
         and E = "offlineEnv \<lparr> ep_intent := (\<lambda>n r. Inr \<lparr> intent = ''productRequirements'',
                                                   ic_nextStep = Some ''showSummary'', resumeWorkflow = None \<rparr>) \<rparr>"
         and w = initialWorld
         and cap = "(render initialWorld) \<lparr> c_currentStep := ''awaitAdvanced'' \<rparr>"
         and classified = "\<lparr> intent = ''productRequirements'', ic_nextStep = Some ''showSummary'', resumeWorkflow = None \<rparr>"
         and current = "''awaitAdvanced''"]
    by (simp add: t intentReply_def)
qed

text \<open>
  Claim C6 as stated fails in its frame: the message log and the loading flag are not all
  that changes.  The handler also clears the input field.  Here the input field holds the
  question when the handler starts, and is empty when it returns.
\<close>

theorem knowledgeQuestion_inputValue_counterexample:
  "inputValue (initialWorld \<lparr> inputValue := ''What is HART?'' \<rparr>) = ''What is HART?''
   \<and> inputValue (snd (handleSendMessage
        (offlineEnv \<lparr> ep_intent := (\<lambda>n r. Inr \<lparr> intent = ''knowledgeQuestion'',
                                                   ic_nextStep = None, resumeWorkflow = None \<rparr>) \<rparr>)
        (render (initialWorld \<lparr> inputValue := ''What is HART?'' \<rparr>))
        ''What is HART?''
        (initialWorld \<lparr> inputValue := ''What is HART?'' \<rparr>))) = []"
proof -
  have t: "trim ''What is HART?'' = ''What is HART?''"
    by (rule trim_nonblank) (simp_all add: isWhiteSpace_def)
  have wf: "wf_ids (initialWorld \<lparr> inputValue := ''What is HART?'' \<rparr>)"
    by (simp add: wf_ids_def initialWorld_def)
  show ?thesis
    by (subst handleSendMessage_knowledgeQuestion[OF wf])
       (simp_all add: t intentReply_def offlineEnv_def initialWorld_def)
qed

text \<open>
  Claim C6, amended.  For every message that is not blank and is classified as
  \<^verbatim>\<open>knowledgeQuestion\<close>, \<^verbatim>\<open>handleSendMessage\<close> returns normally; it appends the user
  message and one assistant message whose text is the answer generated for the current
  step, with the product type and the collected data as context; and it leaves the current
  step, \<^verbatim>\<open>collectedData\<close>, \<^verbatim>\<open>productType\<close>, \<^verbatim>\<open>requirementSchema\<close> and
  \<^verbatim>\<open>analysisResult\<close> unchanged.  Of the session state only the message log, the
  loading flag (cleared), the input field (cleared) and the streaming flag (cleared)
  change; the log of requests and the id counter advance.
\<close>

theorem knowledgeQuestion_keeps_workflow:
  assumes "wf_ids w" and "trim userInput \<noteq> []"
    and "intent (intentReply (ep_intent E (length (sent w)) (PostIntent (trim userInput)))) = ''knowledgeQuestion''"
  shows "\<exists>w'. handleSendMessage E cap userInput w = (Inr (), w')
     \<and> messages w' = messages w @
          [\<lparr> m_id = nextId w, m_type = user, m_content = trim userInput \<rparr>,
           \<lparr> m_id = Suc (nextId w), m_type = assistant,
             m_content = content (agentReply (ep_sales_agent E (Suc (length (sent w)))
               (PostSalesAgent (c_currentStep cap)
                  (CtxProductData (c_productType cap) (c_collectedData cap))
                  (trim userInput) (Some ''knowledgeQuestion'')))) \<rparr>]
     \<and> currentStep w' = currentStep w
     \<and> collectedData w' = collectedData w
     \<and> productType w' = productType w
     \<and> requirementSchema w' = requirementSchema w
     \<and> analysisResult w' = analysisResult w
     \<and> isLoading w' = False \<and> inputValue w' = [] \<and> isStreaming w' = False
     \<and> w' \<lparr> messages := messages w, isLoading := isLoading w, inputValue := inputValue w,
            isStreaming := isStreaming w, sent := sent w, nextId := nextId w \<rparr> = w"
  by (subst handleSendMessage_knowledgeQuestion[OF assms]) simp

theorem knowledgeQuestion_keeps_workflow_witness:
  "wf_ids initialWorld
   \<and> trim ''What is HART?'' \<noteq> []
   \<and> (\<exists>w'. handleSendMessage
              (offlineEnv \<lparr> ep_intent := (\<lambda>n r. Inr \<lparr> intent = ''knowledgeQuestion'',
                                                         ic_nextStep = None, resumeWorkflow = None \<rparr>),
                            ep_sales_agent := (\<lambda>n r. Inr \<lparr> content = ''HART is a protocol.'',
                                                              nextStep = Some ''awaitOptional'',
                                                              maintainWorkflow = None \<rparr>) \<rparr>)
              (render initialWorld) ''What is HART?'' initialWorld = (Inr (), w')
        \<and> map m_content (messages w') = [''What is HART?'', ''HART is a protocol.'']
        \<and> currentStep w' = ''greeting''
        \<and> collectedData w' = [])"
proof -
  have t: "trim ''What is HART?'' = ''What is HART?''"
    by (rule trim_nonblank) (simp_all add: isWhiteSpace_def)
  have wf: "wf_ids initialWorld"
    by (simp add: wf_ids_def initialWorld_def)
  show ?thesis
    using knowledgeQuestion_keeps_workflow
      [where w = initialWorld and userInput = "''What is HART?''"
         and E = "offlineEnv \<lparr> ep_intent := (\<lambda>n r. Inr \<lparr> intent = ''knowledgeQuestion'',
                                                         ic_nextStep = None, resumeWorkflow = None \<rparr>),
                            ep_sales_agent := (\<lambda>n r. Inr \<lparr> content = ''HART is a protocol.'',
                                                              nextStep = Some ''awaitOptional'',
                                                              maintainWorkflow = None \<rparr>) \<rparr>"
         and cap = "render initialWorld"]
    by (simp add: t wf intentReply_def agentReply_def) (auto simp: initialWorld_def)
qed

lemma showNat_digit: "n < 10 \<Longrightarrow> showNat n = [digit_char n]"
  by (subst showNat.simps) simp

text \<open>
  Claim C4 as stated fails on the count: the number in the success toast is not the number
  of ranked products at or above the threshold of 80.  A product is counted only if its
  \<^verbatim>\<open>requirementsMatch\<close> is true as well.  Here the one ranked product has score 90
  and does not match, and the toast reports no product.
\<close>

theorem performAnalysis_count_counterexample:
  "length (filter (\<lambda>p. 80 \<le> rp_overallScore p)
             (rankedProducts (overallRanking (mkAnalysis [] [mkRanked ''V'' ''P'' 1 90 False])))) = 1
   \<and> toasts (snd (performAnalysis
        (offlineEnv \<lparr> ep_analyze := (\<lambda>n r. Inr (mkAnalysis [] [mkRanked ''V'' ''P'' 1 90 False])) \<rparr>)
        (render initialWorld) initialWorld))
     = [\<lparr> title = ''Analysis Complete'', description = ''Found 0 matching products.'' \<rparr>]"
proof -
  have wf: "wf_ids initialWorld"
    by (simp add: wf_ids_def initialWorld_def)
  have c: "matchingCount (mkAnalysis [] [mkRanked ''V'' ''P'' 1 90 False]) = 0"
    by (simp add: matchingCount_def mkAnalysis_def mkRanked_def)
  have "toasts (snd (performAnalysis
        (offlineEnv \<lparr> ep_analyze := (\<lambda>n r. Inr (mkAnalysis [] [mkRanked ''V'' ''P'' 1 90 False])) \<rparr>)
        (render initialWorld) initialWorld))
     = [\<lparr> title = ''Analysis Complete'', description = ''Found 0 matching products.'' \<rparr>]"
    by (subst performAnalysis_success[OF wf, where analysis = "mkAnalysis [] [mkRanked ''V'' ''P'' 1 90 False]"])
       (simp_all add: c showNat_digit digit_char_def initialWorld_def)
  then show ?thesis
    by (simp add: mkAnalysis_def mkRanked_def)
qed

text \<open>
  Claim C4, amended.  Whenever the analysis call of \<^verbatim>\<open>performAnalysis\<close> succeeds, the
  count in the success toast is the number of \<^verbatim>\<open>rankedProducts\<close> entries whose
  \<^verbatim>\<open>overallScore\<close> is at least 80 and whose \<^verbatim>\<open>requirementsMatch\<close> is true, the
  full unfiltered result is stored in the session state, the completion message is
  appended to the log and the step becomes \<^verbatim>\<open>initialInput\<close>.  Whenever the analysis
  call fails, an error message is appended and the step becomes \<^verbatim>\<open>analysisError\<close>;
  the collected data, the product type and the stored result are left as they were, so a
  rerun from the resulting state submits the same analysis request.
\<close>

theorem performAnalysis_outcomes:
  assumes "wf_ids w"
  shows "(ep_analyze E (length (sent w)) (analysisRequest E cap) = Inr analysis \<longrightarrow>
           (\<exists>w'. performAnalysis E cap w = (Inr (), w')
              \<and> toasts w' = toasts w @
                   [\<lparr> title = ''Analysis Complete'',
                      description = ''Found '' @ showNat (matchingCount analysis) @ '' matching products.'' \<rparr>]
              \<and> matchingCount analysis =
                   length (filter (\<lambda>p. 80 \<le> rp_overallScore p \<and> rp_requirementsMatch p)
                             (rankedProducts (overallRanking analysis)))
              \<and> analysisResult w' = Some analysis
              \<and> messages w' = messages w @
                   [\<lparr> m_id = nextId w, m_type = assistant,
                      m_content = content (agentReply (ep_sales_agent E (Suc (length (sent w)))
                                             (completionRequest analysis))) \<rparr>]
              \<and> currentStep w' = ''initialInput''
              \<and> isLoading w' = False
              \<and> collectedData w' = collectedData w))
     \<and> (ep_analyze E (length (sent w)) (analysisRequest E cap) = Inl failure \<longrightarrow>
           (\<exists>w'. performAnalysis E cap w = (Inr (), w')
              \<and> messages w' = messages w @
                   [\<lparr> m_id = nextId w, m_type = assistant,
                      m_content = content (agentReply (ep_sales_agent E (Suc (length (sent w)))
                                             analysisErrorRequest)) \<rparr>]
              \<and> currentStep w' = ''analysisError''
              \<and> isLoading w' = False
              \<and> collectedData w' = collectedData w
              \<and> productType w' = productType w
              \<and> analysisResult w' = analysisResult w
              \<and> analysisRequest E (render w') = analysisRequest E (render w)
              \<and> sent (snd (handleRetry E (render w') w')) ! length (sent w') =
                  analysisRequest E (render w)))"
proof (intro conjI impI)
  assume ok: "ep_analyze E (length (sent w)) (analysisRequest E cap) = Inr analysis"
  show "\<exists>w'. performAnalysis E cap w = (Inr (), w')
              \<and> toasts w' = toasts w @
                   [\<lparr> title = ''Analysis Complete'',
                      description = ''Found '' @ showNat (matchingCount analysis) @ '' matching products.'' \<rparr>]
              \<and> matchingCount analysis =
                   length (filter (\<lambda>p. 80 \<le> rp_overallScore p \<and> rp_requirementsMatch p)
                             (rankedProducts (overallRanking analysis)))
              \<and> analysisResult w' = Some analysis
              \<and> messages w' = messages w @
                   [\<lparr> m_id = nextId w, m_type = assistant,
                      m_content = content (agentReply (ep_sales_agent E (Suc (length (sent w)))
                                             (completionRequest analysis))) \<rparr>]
              \<and> currentStep w' = ''initialInput''
              \<and> isLoading w' = False
              \<and> collectedData w' = collectedData w"
    by (subst performAnalysis_success[OF assms ok]) (simp add: matchingCount_def)
next
  assume ko: "ep_analyze E (length (sent w)) (analysisRequest E cap) = Inl failure"
  define w' where "w' = snd (performAnalysis E cap w)"
  have r: "performAnalysis E cap w = (Inr (), w')"
    by (simp add: w'_def performAnalysis_failure[OF assms ko])
  have w': "w' = w \<lparr> messages := messages w @
            [\<lparr> m_id = nextId w, m_type = assistant,
               m_content = content (agentReply (ep_sales_agent E (Suc (length (sent w)))
                                      analysisErrorRequest)) \<rparr>],
          isLoading := False,
          currentStep := ''analysisError'',
          isStreaming := False,
          sent := sent w @ [analysisRequest E cap, analysisErrorRequest],
          nextId := Suc (nextId w) \<rparr>"
    by (simp add: w'_def performAnalysis_failure[OF assms ko])
  have wf': "wf_ids w'"
    using wf_ids_mono[OF assms, of "Suc (nextId w)"] by (simp add: w' wf_ids_def)
  have same: "analysisRequest E (render w') = analysisRequest E (render w)"
    by (simp add: w' analysisRequest_def fullInputStr_def render_def)
  have rerun: "sent (snd (handleRetry E (render w') w')) ! length (sent w') = analysisRequest E (render w)"
    using performAnalysis_request[OF wf', of E "render w'"] same by (simp add: handleRetry_def)
  show "\<exists>w'. performAnalysis E cap w = (Inr (), w')
              \<and> messages w' = messages w @
                   [\<lparr> m_id = nextId w, m_type = assistant,
                      m_content = content (agentReply (ep_sales_agent E (Suc (length (sent w)))
                                             analysisErrorRequest)) \<rparr>]
              \<and> currentStep w' = ''analysisError''
              \<and> isLoading w' = False
              \<and> collectedData w' = collectedData w
              \<and> productType w' = productType w
              \<and> analysisResult w' = analysisResult w
              \<and> analysisRequest E (render w') = analysisRequest E (render w)
              \<and> sent (snd (handleRetry E (render w') w')) ! length (sent w') =
                  analysisRequest E (render w)"
    using r same rerun by (intro exI[of _ w']) (simp add: w')
qed

theorem performAnalysis_outcomes_witness:
  "wf_ids initialWorld
   \<and> (\<exists>w'. performAnalysis
              (offlineEnv \<lparr> ep_analyze := (\<lambda>n r. Inr (mkAnalysis [mkMatch ''V'' ''A'' True]
                     [mkRanked ''V'' ''A'' 1 95 True, mkRanked ''V'' ''B'' 2 70 True])) \<rparr>)
              (render initialWorld) initialWorld = (Inr (), w')
        \<and> toasts w' = [\<lparr> title = ''Analysis Complete'', description = ''Found 1 matching products.'' \<rparr>]
        \<and> currentStep w' = ''initialInput''
        \<and> map m_content (messages w') = [apology])
   \<and> (\<exists>w'. performAnalysis offlineEnv (render initialWorld) initialWorld = (Inr (), w')
        \<and> currentStep w' = ''analysisError''
        \<and> analysisResult w' = None
        \<and> map m_content (messages w') = [apology])"
proof -
  have wf: "wf_ids initialWorld"
    by (simp add: wf_ids_def initialWorld_def)
  have c: "matchingCount (mkAnalysis [mkMatch ''V'' ''A'' True]
                     [mkRanked ''V'' ''A'' 1 95 True, mkRanked ''V'' ''B'' 2 70 True]) = 1"
    by (simp add: matchingCount_def mkAnalysis_def mkRanked_def)
  have a: "\<exists>w'. performAnalysis
              (offlineEnv \<lparr> ep_analyze := (\<lambda>n r. Inr (mkAnalysis [mkMatch ''V'' ''A'' True]
                     [mkRanked ''V'' ''A'' 1 95 True, mkRanked ''V'' ''B'' 2 70 True])) \<rparr>)
              (render initialWorld) initialWorld = (Inr (), w')
        \<and> toasts w' = [\<lparr> title = ''Analysis Complete'', description = ''Found 1 matching products.'' \<rparr>]
        \<and> currentStep w' = ''initialInput''
        \<and> map m_content (messages w') = [apology]"
    using performAnalysis_outcomes
      [OF wf, where E = "offlineEnv \<lparr> ep_analyze := (\<lambda>n r. Inr (mkAnalysis [mkMatch ''V'' ''A'' True]
                     [mkRanked ''V'' ''A'' 1 95 True, mkRanked ''V'' ''B'' 2 70 True])) \<rparr>"
         and cap = "render initialWorld" and failure = None
         and analysis = "mkAnalysis [mkMatch ''V'' ''A'' True]
                     [mkRanked ''V'' ''A'' 1 95 True, mkRanked ''V'' ''B'' 2 70 True]"]
    by (simp add: c showNat_digit digit_char_def agentReply_def)
       (auto simp: initialWorld_def offlineEnv_def)
  have b: "\<exists>w'. performAnalysis offlineEnv (render initialWorld) initialWorld = (Inr (), w')
        \<and> currentStep w' = ''analysisError''
        \<and> analysisResult w' = None
        \<and> map m_content (messages w') = [apology]"
    using performAnalysis_outcomes
      [OF wf, where E = offlineEnv and cap = "render initialWorld" and failure = None
         and analysis = "mkAnalysis [] []"]
    by (simp add: offlineEnv_def agentReply_def) (auto simp: initialWorld_def)
  show ?thesis using wf a b by simp
qed

end
